theory Spec2Isabelle
  imports Main "HOL-Library.Word"
begin

section \<open>The COS storage driver: data model\<close>

text \<open>
  The repository holds two versions of the driver, both \<^verbatim>\<open>package cos\<close>:
  \<^verbatim>\<open>registry/storage/driver/cos/cos.go\<close> and a second file (\<^verbatim>\<open>unnamed/part_001\<close>).
  Functions of the first keep their names; functions of the second carry the suffix
  \<open>_p1\<close>. The two \<^verbatim>\<open>driver\<close> structs and the two \<^verbatim>\<open>writer\<close> structs have the same
  fields (the first driver has \<^verbatim>\<open>MaxConcurrency\<close> in addition), so one record serves
  both.

  Modelled are the key mapping, the error translation, the writer (\<^verbatim>\<open>Write\<close>,
  \<^verbatim>\<open>Size\<close>, \<^verbatim>\<open>Close\<close>, \<^verbatim>\<open>Cancel\<close>, \<^verbatim>\<open>Commit\<close>) and the driver operations \<^verbatim>\<open>Writer\<close>,
  \<^verbatim>\<open>Stat\<close>, \<^verbatim>\<open>Move\<close> and \<^verbatim>\<open>Delete\<close>. The \<^verbatim>\<open>context.Context\<close> arguments are left
  out: the functions only pass them on to the SDK. So is the \<^verbatim>\<open>sync.Pool\<close> of
  \<^verbatim>\<open>cos.go\<close>: a writer resets the buffer it takes from the pool and drops its pointer
  when it gives the buffer back.
\<close>

type_synonym bytes = "8 word list"

subsection \<open>The SDK client\<close>

text \<open>
  An error value returned by an SDK call: a \<^verbatim>\<open>*cos.ErrorResponse\<close> with its code and
  message, or any other error (transport, context).
\<close>

datatype cos_error = ErrorResponse string string | OtherError string

text \<open>\<^verbatim>\<open>cos.Object{PartNumber, ETag}\<close> as the writers keep it in \<^verbatim>\<open>parts\<close>.\<close>

datatype part = Part (PartNumber: int) (ETag: string)

record BucketGetOptions =
  Prefix :: string
  Delimiter :: string
  Marker :: string
  MaxKeys :: int

text \<open>
  One entry of \<^verbatim>\<open>result.Contents\<close>; \<^verbatim>\<open>Key\<close> is the only field the functions modelled
  here read.
\<close>

record cos_object =
  Key :: string

record BucketGetResult =
  Contents :: "cos_object list"
  CommonPrefixes :: "string list"
  IsTruncated :: bool
  NextMarker :: string

text \<open>The SDK calls the driver makes, with the arguments it passes.\<close>

datatype call =
    ObjectHead string
  | ObjectPut string bytes
  | InitiateMultipartUpload string
  | UploadPart string string int bytes "int option"
  | CompleteMultipartUpload string string "part list"
  | AbortMultipartUpload string string
  | BucketGet BucketGetOptions
  | ObjectCopy string string
  | ObjectDelete string
  | ObjectDeleteMulti "string list" bool

text \<open>
  What an SDK call hands back: its error (\<open>None\<close> is Go's \<^verbatim>\<open>nil\<close>), the response
  headers (\<^verbatim>\<open>Header.Get\<close> gives the empty string for an absent header), and the
  result fields the driver reads. \<open>consumed\<close> is the number of bytes the call has
  read from the \<^verbatim>\<open>io.Reader\<close> it was given: the second version passes the writer's
  own buffer, which a read drains.
\<close>

record reply =
  err :: "cos_error option"
  Header :: "string \<Rightarrow> string"
  UploadID :: string
  listing :: BucketGetResult
  consumed :: nat

text \<open>
  The object store is outside the repository. It is a parameter: a function from the
  calls made so far and the present call to the reply. The list of calls made so far
  is the only state the model threads through the driver's functions.
\<close>

type_synonym client = "call list \<Rightarrow> call \<Rightarrow> reply"

definition issue :: "client \<Rightarrow> call list \<Rightarrow> call \<Rightarrow> reply \<times> call list" where
  "issue c tr x = (c tr x, tr @ [x])"

subsection \<open>Driver, writer, results\<close>

text \<open>
  \<open>BucketURL_Host\<close> is \<^verbatim>\<open>d.Client.BaseURL.BucketURL.Host\<close>, the host of the bucket URL
  that \<^verbatim>\<open>New\<close> builds (\<^verbatim>\<open>bucket.cos.region.myqcloud.com\<close>); \<^verbatim>\<open>Move\<close> of \<^verbatim>\<open>cos.go\<close>
  reads it.
\<close>

record driver =
  Client :: client
  BucketURL_Host :: string
  Bucket :: string
  RootDirectory :: string
  ChunkSize :: int
  MaxConcurrency :: int

text \<open>
  \<^verbatim>\<open>buf\<close> is a \<^verbatim>\<open>*bytes.Buffer\<close>: \<open>None\<close> is the nil pointer that \<^verbatim>\<open>Close\<close> of
  \<^verbatim>\<open>cos.go\<close> leaves behind. \<^verbatim>\<open>size\<close> is an \<^verbatim>\<open>int64\<close>; the field is called
  \<open>size_w\<close> here, since \<open>size\<close> is a constant of HOL.
\<close>

record writer =
  driver :: driver
  key :: string
  uploadID :: string
  parts :: "part list"
  size_w :: "64 word"
  buf :: "bytes option"
  closed :: bool
  committed :: bool
  cancelled :: bool

text \<open>
  Errors the driver returns. \<open>Errorf\<close> is \<^verbatim>\<open>fmt.Errorf\<close>/\<^verbatim>\<open>errors.New\<close> with the
  formatted message; \<open>SDKError\<close> is an SDK error handed on as it is;
  \<open>PathNotFoundError\<close> carries \<^verbatim>\<open>Path\<close> and \<^verbatim>\<open>DriverName\<close>; \<open>StorageError\<close> is
  \<^verbatim>\<open>storagedriver.Error{DriverName, Detail}\<close>; \<open>NilPointerPanic\<close> is the run-time
  panic of a method called on a nil \<^verbatim>\<open>*bytes.Buffer\<close>.
\<close>

datatype error =
    PathNotFoundError string string
  | Errorf string
  | SDKError cos_error
  | StorageError string cos_error
  | NilPointerPanic

text \<open>
  \<^verbatim>\<open>time.Time\<close> values are kept symbolic: the zero time, the first result of
  \<^verbatim>\<open>time.Parse(layout, value)\<close> (the source drops its error), and \<^verbatim>\<open>time.Now()\<close>.
\<close>

datatype time_value = ZeroTime | time_Parse string string | time_Now

record FileInfoFields =
  Path :: string
  Size :: int
  ModTime :: time_value
  IsDir :: bool

definition driverName :: string where
  "driverName = ''cos''"

definition listMax :: int where
  "listMax = 1000"

definition http_TimeFormat :: string where
  "http_TimeFormat = ''Mon, 02 Jan 2006 15:04:05 GMT''"

definition time_RFC1123 :: string where
  "time_RFC1123 = ''Mon, 02 Jan 2006 15:04:05 MST''"

subsection \<open>Go library functions the driver calls\<close>

definition TrimPrefix :: "string \<Rightarrow> string \<Rightarrow> string" where
  "TrimPrefix s p = (if take (length p) s = p then drop (length p) s else s)"

definition TrimLeft :: "string \<Rightarrow> string \<Rightarrow> string" where
  "TrimLeft s cutset = dropWhile (\<lambda>c. c \<in> set cutset) s"



text \<open>
  \<^verbatim>\<open>strconv.ParseInt(s, 10, 64)\<close>, first result. \<^verbatim>\<open>ParseUint\<close> reads the digits from
  the left: a character that is no digit gives 0 (syntax error), an overflow of
  \<^verbatim>\<open>uint64\<close> gives the largest value at once (range error), before the rest is
  looked at. \<^verbatim>\<open>ParseInt\<close> then clamps to the \<^verbatim>\<open>int64\<close> range.
\<close>

definition is_digit :: "char \<Rightarrow> bool" where
  "is_digit c = (48 \<le> (of_char c :: nat) \<and> (of_char c :: nat) \<le> 57)"

datatype num_error = ErrSyntax | ErrRange

fun ParseUint_digits :: "string \<Rightarrow> nat \<Rightarrow> nat \<times> num_error option" where
  "ParseUint_digits [] n = (n, None)"
| "ParseUint_digits (c # cs) n =
     (if \<not> is_digit c then (0, Some ErrSyntax)
      else if (2 ^ 64 - 1) div 10 + 1 \<le> n then (2 ^ 64 - 1, Some ErrRange)
      else let n1 = n * 10 + ((of_char c :: nat) - 48)
           in if 2 ^ 64 - 1 < n1 then (2 ^ 64 - 1, Some ErrRange)
              else ParseUint_digits cs n1)"

definition ParseUint :: "string \<Rightarrow> nat \<times> num_error option" where
  "ParseUint s = (if s = [] then (0, Some ErrSyntax) else ParseUint_digits s 0)"

definition ParseInt :: "string \<Rightarrow> int" where
  "ParseInt s =
     (if s = [] then 0
      else let neg = (hd s = CHR ''-'');
               s0 = (if hd s = CHR ''+'' \<or> hd s = CHR ''-'' then tl s else s);
               (un, e) = ParseUint s0
           in if e = Some ErrSyntax then 0
              else if \<not> neg \<and> 2 ^ 63 \<le> un then 2 ^ 63 - 1
              else if neg \<and> 2 ^ 63 < un then - (2 ^ 63)
              else if neg then - int un else int un)"

section \<open>\<^verbatim>\<open>cos.go\<close>\<close>

subsection \<open>Path mapping and error translation\<close>

definition cosPath :: "driver \<Rightarrow> string \<Rightarrow> string" where
  "cosPath d path =
     (if RootDirectory d = '''' then TrimPrefix path ''/''
      else TrimPrefix (RootDirectory d @ path) ''/'')"

fun parseError :: "string \<Rightarrow> cos_error option \<Rightarrow> error option" where
  "parseError path None = None"
| "parseError path (Some (ErrorResponse code message)) =
     (if code = ''NoSuchKey'' then Some (PathNotFoundError path '''')
      else if code = ''AccessDenied'' then Some (Errorf (''access denied: '' @ message))
      else if code = ''BucketNotFound'' then Some (Errorf (''bucket not found: '' @ message))
      else Some (Errorf (''cos error: '' @ code @ '' - '' @ message)))"
| "parseError path (Some (OtherError m)) = Some (SDKError (OtherError m))"

subsection \<open>The writer\<close>

definition newWriter :: "driver \<Rightarrow> string \<Rightarrow> string \<Rightarrow> part list \<Rightarrow> writer" where
  "newWriter d k uid ps =
     \<lparr>driver = d, key = k, uploadID = uid, parts = ps, size_w = 0, buf = Some [],
      closed = False, committed = False, cancelled = False\<rparr>"

text \<open>
  \<^verbatim>\<open>uploadPart\<close> sends the whole buffer as one part, numbered \<^verbatim>\<open>len(w.parts) + 1\<close>,
  and resets the buffer before the call.
\<close>

definition uploadPart :: "writer \<Rightarrow> call list \<Rightarrow> error option \<times> writer \<times> call list" where
  "uploadPart w tr =
     (case buf w of
        None \<Rightarrow> (Some NilPointerPanic, w, tr)
      | Some b \<Rightarrow>
          if length b = 0 then (None, w, tr)
          else
            let partNumber = int (length (parts w)) + 1;
                data = b;
                w1 = w\<lparr>buf := Some []\<rparr>;
                (r, tr1) = issue (Client (driver w)) tr
                  (UploadPart (key w) (uploadID w) partNumber data (Some (int (length data))))
            in (case err r of
                  Some e \<Rightarrow> (Some (SDKError e), w1, tr1)
                | None \<Rightarrow>
                    (None, w1\<lparr>parts := parts w1 @ [Part partNumber (Header r ''ETag'')]\<rparr>, tr1)))"

text \<open>
  The loop \<^verbatim>\<open>for w.buf.Len() >= w.driver.ChunkSize\<close> of \<^verbatim>\<open>Write\<close>. It need not end
  (a chunk size of 0 or less keeps the condition true on an empty buffer), so the
  result is an option: \<open>None\<close> is the loop that runs forever.
\<close>

partial_function (option) Write_loop ::
  "writer \<Rightarrow> call list \<Rightarrow> (error option \<times> writer \<times> call list) option" where
  "Write_loop w tr =
     (case buf w of
        None \<Rightarrow> Some (Some NilPointerPanic, w, tr)
      | Some b \<Rightarrow>
          if ChunkSize (driver w) \<le> int (length b) then
            (case uploadPart w tr of
               (Some e, w1, tr1) \<Rightarrow> Some (Some e, w1, tr1)
             | (None, w1, tr1) \<Rightarrow> Write_loop w1 tr1)
          else Some (None, w, tr))"

declare Write_loop.simps [code]

definition Write ::
  "writer \<Rightarrow> call list \<Rightarrow> bytes \<Rightarrow> (int \<times> error option \<times> writer \<times> call list) option" where
  "Write w tr p =
     (if closed w then Some (0, Some (Errorf ''already closed''), w, tr)
      else if cancelled w then Some (0, Some (Errorf ''already cancelled''), w, tr)
      else if committed w then Some (0, Some (Errorf ''already committed''), w, tr)
      else
        case buf w of
          None \<Rightarrow> Some (0, Some NilPointerPanic, w, tr)
        | Some b \<Rightarrow>
            let n = int (length p);
                w1 = w\<lparr>buf := Some (b @ p), size_w := size_w w + of_int n\<rparr>
            in map_option (\<lambda>(e, w2, tr2). (n, e, w2, tr2)) (Write_loop w1 tr))"

definition Size_w :: "writer \<Rightarrow> 64 word" where
  "Size_w w = size_w w"

definition Close :: "writer \<Rightarrow> error option \<times> writer" where
  "Close w =
     (if closed w then (None, w)
      else (None, w\<lparr>closed := True, buf := None\<rparr>))"

definition Cancel :: "writer \<Rightarrow> call list \<Rightarrow> error option \<times> writer \<times> call list" where
  "Cancel w tr =
     (if closed w then (None, w, tr)
      else
        let w1 = w\<lparr>cancelled := True\<rparr>;
            (_, w2) = Close w1;
            (r, tr1) = issue (Client (driver w2)) tr (AbortMultipartUpload (key w2) (uploadID w2))
        in (map_option SDKError (err r), w2, tr1))"

definition Commit :: "writer \<Rightarrow> call list \<Rightarrow> error option \<times> writer \<times> call list" where
  "Commit w tr =
     (if closed w \<and> \<not> committed w \<and> \<not> cancelled w then (Some (Errorf ''already closed''), w, tr)
      else if committed w then (Some (Errorf ''already committed''), w, tr)
      else if cancelled w then (Some (Errorf ''already cancelled''), w, tr)
      else
        case uploadPart w tr of
          (Some e, w1, tr1) \<Rightarrow> (Some e, w1, tr1)
        | (None, w1, tr1) \<Rightarrow>
            let (r, tr2) = issue (Client (driver w1)) tr1
                  (CompleteMultipartUpload (key w1) (uploadID w1) (parts w1))
            in (case err r of
                  Some e \<Rightarrow> (Some (SDKError e), w1, tr2)
                | None \<Rightarrow>
                    let (e, w2) = Close (w1\<lparr>committed := True\<rparr>)
                    in (e, w2, tr2)))"

subsection \<open>Driver operations\<close>

definition Writer ::
  "driver \<Rightarrow> call list \<Rightarrow> string \<Rightarrow> bool \<Rightarrow> writer option \<times> error option \<times> call list" where
  "Writer d tr path append_mode =
     (let k = cosPath d path in
      if \<not> append_mode then
        let (r, tr1) = issue (Client d) tr (InitiateMultipartUpload k)
        in case err r of
             Some e \<Rightarrow> (None, parseError path (Some e), tr1)
           | None \<Rightarrow> (Some (newWriter d k (UploadID r) []), None, tr1)
      else
        let (h, tr1) = issue (Client d) tr (ObjectHead k)
        in case err h of
             Some _ \<Rightarrow>
               let (r, tr2) = issue (Client d) tr1 (InitiateMultipartUpload k)
               in (case err r of
                     Some e \<Rightarrow> (None, parseError path (Some e), tr2)
                   | None \<Rightarrow> (Some (newWriter d k (UploadID r) []), None, tr2))
           | None \<Rightarrow>
               (None, Some (Errorf ''append mode not supported for existing objects''), tr1))"

definition Stat ::
  "driver \<Rightarrow> call list \<Rightarrow> string \<Rightarrow> FileInfoFields option \<times> error option \<times> call list" where
  "Stat d tr path =
     (let k = cosPath d path;
          (resp, tr1) = issue (Client d) tr (ObjectHead k)
      in case err resp of
           Some e \<Rightarrow>
             let opt = \<lparr>Prefix = k @ ''/'', Delimiter = ''/'', Marker = '''', MaxKeys = 1\<rparr>;
                 (res, tr2) = issue (Client d) tr1 (BucketGet opt)
             in (case err res of
                   Some listErr \<Rightarrow> (None, parseError path (Some e), tr2)
                 | None \<Rightarrow>
                     if length (Contents (listing res)) > 0
                        \<or> length (CommonPrefixes (listing res)) > 0
                     then (Some \<lparr>Path = path, Size = 0, ModTime = ZeroTime, IsDir = True\<rparr>,
                           None, tr2)
                     else (None, parseError path (Some e), tr2))
         | None \<Rightarrow>
             let lastModified = Header resp ''Last-Modified'';
                 modTime = (if lastModified \<noteq> '''' then time_Parse http_TimeFormat lastModified
                            else ZeroTime);
                 contentLength = Header resp ''Content-Length'';
                 sz = (if contentLength \<noteq> '''' then ParseInt contentLength else 0)
             in (Some \<lparr>Path = path, Size = sz, ModTime = modTime, IsDir = False\<rparr>, None, tr1))"

definition Move :: "driver \<Rightarrow> call list \<Rightarrow> string \<Rightarrow> string \<Rightarrow> error option \<times> call list" where
  "Move d tr sourcePath destPath =
     (let sourceKey = cosPath d sourcePath;
          destKey = cosPath d destPath;
          sourceURL = Bucket d @ ''.cos.'' @ BucketURL_Host d @ ''.myqcloud.com/'' @ sourceKey;
          (c, tr1) = issue (Client d) tr (ObjectCopy destKey sourceURL)
      in case err c of
           Some e \<Rightarrow> (parseError sourcePath (Some e), tr1)
         | None \<Rightarrow>
             let (x, tr2) = issue (Client d) tr1 (ObjectDelete sourceKey)
             in (case err x of
                   Some e \<Rightarrow>
                     let (_, tr3) = issue (Client d) tr2 (ObjectDelete destKey)
                     in (parseError sourcePath (Some e), tr3)
                 | None \<Rightarrow> (None, tr2)))"

text \<open>
  The listing loop of \<^verbatim>\<open>Delete\<close>. It runs as long as the store answers
  \<^verbatim>\<open>IsTruncated\<close>, so it is an option too.
\<close>

partial_function (option) Delete_loop ::
  "driver \<Rightarrow> string \<Rightarrow> BucketGetOptions \<Rightarrow> call list \<Rightarrow> (error option \<times> call list) option" where
  "Delete_loop d path opt tr =
     (let (res, tr1) = issue (Client d) tr (BucketGet opt)
      in case err res of
           Some e \<Rightarrow> Some (parseError path (Some e), tr1)
         | None \<Rightarrow>
             let result = listing res;
                 (x, tr2) =
                   (if length (Contents result) > 0
                    then let (m, tr') = issue (Client d) tr1
                               (ObjectDeleteMulti (map Key (Contents result)) True)
                         in (err m, tr')
                    else (None, tr1))
             in (case x of
                   Some e \<Rightarrow> Some (parseError path (Some e), tr2)
                 | None \<Rightarrow>
                     if \<not> IsTruncated result then Some (None, tr2)
                     else Delete_loop d path (opt\<lparr>Marker := NextMarker result\<rparr>) tr2))"

declare Delete_loop.simps [code]

definition Delete :: "driver \<Rightarrow> call list \<Rightarrow> string \<Rightarrow> (error option \<times> call list) option" where
  "Delete d tr path =
     (let k = cosPath d path;
          (x, tr1) = issue (Client d) tr (ObjectDelete k)
      in if err x = None then Some (None, tr1)
         else Delete_loop d path \<lparr>Prefix = k, Delimiter = '''', Marker = '''', MaxKeys = 1000\<rparr> tr1)"

section \<open>The second version (\<^verbatim>\<open>unnamed/part_001\<close>)\<close>

subsection \<open>Construction\<close>




subsection \<open>Path mapping and error translation\<close>

definition cosPath_p1 :: "driver \<Rightarrow> string \<Rightarrow> string" where
  "cosPath_p1 d path =
     (if RootDirectory d = '''' then TrimLeft path ''/''
      else TrimLeft (RootDirectory d @ ''/'' @ TrimLeft path ''/'') ''/'')"

text \<open>Every call site passes a non-nil error.\<close>

fun parseError_p1 :: "string \<Rightarrow> cos_error \<Rightarrow> error" where
  "parseError_p1 path (ErrorResponse code message) =
     (if code = ''NoSuchKey'' \<or> code = ''NoSuchBucket'' then PathNotFoundError path driverName
      else StorageError driverName (ErrorResponse code message))"
| "parseError_p1 path (OtherError m) = StorageError driverName (OtherError m)"

subsection \<open>The writer\<close>

definition newWriter_p1 :: "driver \<Rightarrow> string \<Rightarrow> string \<Rightarrow> writer" where
  "newWriter_p1 d k uid =
     \<lparr>driver = d, key = k, uploadID = uid, parts = [], size_w = 0, buf = Some [],
      closed = False, committed = False, cancelled = False\<rparr>"

text \<open>\<^verbatim>\<open>Write\<close> only appends to the buffer; nothing is sent before \<^verbatim>\<open>Commit\<close>.\<close>

definition Write_p1 :: "writer \<Rightarrow> bytes \<Rightarrow> int \<times> error option \<times> writer" where
  "Write_p1 w p =
     (if closed w then (0, Some (Errorf ''writer closed''), w)
      else
        case buf w of
          None \<Rightarrow> (0, Some NilPointerPanic, w)
        | Some b \<Rightarrow> (int (length p), None, w\<lparr>buf := Some (b @ p)\<rparr>))"

text \<open>\<^verbatim>\<open>Size\<close>: \<open>Inl\<close> is the panic on a nil buffer.\<close>

definition Size_p1 :: "writer \<Rightarrow> error + 64 word" where
  "Size_p1 w =
     (case buf w of
        None \<Rightarrow> Inl NilPointerPanic
      | Some b \<Rightarrow> Inr (size_w w + of_nat (length b)))"

definition Close_p1 :: "writer \<Rightarrow> error option \<times> writer" where
  "Close_p1 w = (if closed w then (None, w) else (None, w\<lparr>closed := True\<rparr>))"

definition Cancel_p1 :: "writer \<Rightarrow> call list \<Rightarrow> error option \<times> writer \<times> call list" where
  "Cancel_p1 w tr =
     (if cancelled w then (None, w, tr)
      else
        let w1 = w\<lparr>cancelled := True\<rparr>
        in if uploadID w1 \<noteq> ''''
           then let (_, tr1) = issue (Client (driver w1)) tr
                      (AbortMultipartUpload (key w1) (uploadID w1))
                in (None, w1, tr1)
           else (None, w1, tr))"

text \<open>
  The parts list sent by \<^verbatim>\<open>Commit\<close>: the ETags kept, renumbered from 1 in the order
  of the slice.
\<close>

definition completeParts :: "part list \<Rightarrow> part list" where
  "completeParts ps = map (\<lambda>(i, p). Part (int i + 1) (ETag p)) (enumerate 0 ps)"

definition Commit_p1 :: "writer \<Rightarrow> call list \<Rightarrow> error option \<times> writer \<times> call list" where
  "Commit_p1 w tr =
     (if committed w then (None, w, tr)
      else if cancelled w then (Some (Errorf ''writer cancelled''), w, tr)
      else
        let w1 = w\<lparr>committed := True\<rparr> in
        case buf w1 of
          None \<Rightarrow> (Some NilPointerPanic, w1, tr)
        | Some b \<Rightarrow>
            if length b = 0 then
              let (r, tr1) = issue (Client (driver w1)) tr (ObjectPut (key w1) [])
              in (map_option SDKError (err r), w1, tr1)
            else if uploadID w1 = '''' \<and> sint (size_w w1 + of_nat (length b)) \<le> ChunkSize (driver w1)
            then
              let (r, tr1) = issue (Client (driver w1)) tr (ObjectPut (key w1) b)
              in (map_option SDKError (err r), w1\<lparr>buf := Some (drop (consumed r) b)\<rparr>, tr1)
            else
              let (ie, w2, tr1) =
                    (if uploadID w1 = ''''
                     then let (r, tr') = issue (Client (driver w1)) tr
                                (InitiateMultipartUpload (key w1))
                          in (case err r of
                                Some e \<Rightarrow> (Some e, w1, tr')
                              | None \<Rightarrow> (None, w1\<lparr>uploadID := UploadID r\<rparr>, tr'))
                     else (None, w1, tr))
              in (case ie of
                    Some e \<Rightarrow> (Some (SDKError e), w2, tr1)
                  | None \<Rightarrow>
                      let (pe, w3, tr2) =
                            (if length b > 0
                             then let partNumber = int (length (parts w2)) + 1;
                                      (r, tr') = issue (Client (driver w2)) tr1
                                        (UploadPart (key w2) (uploadID w2) partNumber b None);
                                      w' = w2\<lparr>buf := Some (drop (consumed r) b)\<rparr>
                                  in (case err r of
                                        Some e \<Rightarrow> (Some e, w', tr')
                                      | None \<Rightarrow>
                                          (None,
                                           w'\<lparr>parts := parts w' @ [Part 0 (Header r ''ETag'')]\<rparr>,
                                           tr'))
                             else (None, w2, tr1))
                      in (case pe of
                            Some e \<Rightarrow> (Some (SDKError e), w3, tr2)
                          | None \<Rightarrow>
                              let (c, tr3) = issue (Client (driver w3)) tr2
                                    (CompleteMultipartUpload (key w3) (uploadID w3)
                                       (completeParts (parts w3)))
                              in (map_option SDKError (err c), w3, tr3))))"

subsection \<open>Driver operations\<close>

definition Writer_p1 ::
  "driver \<Rightarrow> call list \<Rightarrow> string \<Rightarrow> bool \<Rightarrow> writer option \<times> error option \<times> call list" where
  "Writer_p1 d tr path append_mode =
     (let k = cosPath_p1 d path in
      if append_mode then
        let (h, tr1) = issue (Client d) tr (ObjectHead k)
        in (case err h of
              Some _ \<Rightarrow> (Some (newWriter_p1 d k ''''), None, tr1)
            | None \<Rightarrow>
                let contentLength = Header h ''Content-Length'';
                    sz = ParseInt contentLength
                in if sz > 0
                   then (None,
                         Some (Errorf ''cos driver does not support appending to existing objects''),
                         tr1)
                   else (Some (newWriter_p1 d k ''''), None, tr1))
      else (Some (newWriter_p1 d k ''''), None, tr))"

definition Stat_p1 ::
  "driver \<Rightarrow> call list \<Rightarrow> string \<Rightarrow> FileInfoFields option \<times> error option \<times> call list" where
  "Stat_p1 d tr path =
     (let k = cosPath_p1 d path;
          (h, tr1) = issue (Client d) tr (ObjectHead k)
      in if err h = None then
           let contentLength = Header h ''Content-Length'';
               sz = ParseInt contentLength;
               lastModified = Header h ''Last-Modified'';
               modTime = time_Parse time_RFC1123 lastModified
           in (Some \<lparr>Path = path, Size = sz, ModTime = modTime, IsDir = False\<rparr>, None, tr1)
         else
           let opt = \<lparr>Prefix = k @ ''/'', Delimiter = '''', Marker = '''', MaxKeys = 1\<rparr>;
               (res, tr2) = issue (Client d) tr1 (BucketGet opt)
           in (case err res of
                 Some e \<Rightarrow> (None, Some (parseError_p1 path e), tr2)
               | None \<Rightarrow>
                   if length (Contents (listing res)) > 0
                   then (Some \<lparr>Path = path, Size = 0, ModTime = time_Now, IsDir = True\<rparr>,
                         None, tr2)
                   else (None, Some (PathNotFoundError path driverName), tr2)))"

definition Move_p1 :: "driver \<Rightarrow> call list \<Rightarrow> string \<Rightarrow> string \<Rightarrow> error option \<times> call list" where
  "Move_p1 d tr sourcePath destPath =
     (let cosSourcePath = cosPath_p1 d sourcePath;
          cosDestPath = cosPath_p1 d destPath;
          sourceURL = Bucket d @ ''/'' @ cosSourcePath;
          (c, tr1) = issue (Client d) tr (ObjectCopy cosDestPath sourceURL)
      in case err c of
           Some e \<Rightarrow> (Some (parseError_p1 sourcePath e), tr1)
         | None \<Rightarrow>
             let (x, tr2) = issue (Client d) tr1 (ObjectDelete cosSourcePath)
             in (case err x of
                   Some e \<Rightarrow> (Some (parseError_p1 sourcePath e), tr2)
                 | None \<Rightarrow> (None, tr2)))"

text \<open>
  The listing loop of \<^verbatim>\<open>Delete\<close>: \<open>Some (None, tr)\<close> is the loop left by
  \<^verbatim>\<open>break\<close>, \<open>Some (Some e, tr)\<close> the early \<^verbatim>\<open>return\<close> of an error, \<open>None\<close> the
  loop that never ends.
\<close>

partial_function (option) Delete_loop_p1 ::
  "driver \<Rightarrow> string \<Rightarrow> BucketGetOptions \<Rightarrow> call list \<Rightarrow> (error option \<times> call list) option" where
  "Delete_loop_p1 d path opt tr =
     (let (res, tr1) = issue (Client d) tr (BucketGet opt)
      in case err res of
           Some e \<Rightarrow> Some (Some (parseError_p1 path e), tr1)
         | None \<Rightarrow>
             let result = listing res
             in if length (Contents result) = 0 then Some (None, tr1)
                else
                  let (m, tr2) = issue (Client d) tr1
                        (ObjectDeleteMulti (map Key (Contents result)) False)
                  in (case err m of
                        Some e \<Rightarrow> Some (Some (parseError_p1 path e), tr2)
                      | None \<Rightarrow>
                          if \<not> IsTruncated result then Some (None, tr2)
                          else Delete_loop_p1 d path (opt\<lparr>Marker := NextMarker result\<rparr>) tr2))"

declare Delete_loop_p1.simps [code]

definition Delete_p1 :: "driver \<Rightarrow> call list \<Rightarrow> string \<Rightarrow> (error option \<times> call list) option" where
  "Delete_p1 d tr path =
     (let k = cosPath_p1 d path
      in case Delete_loop_p1 d path
                \<lparr>Prefix = k @ ''/'', Delimiter = '''', Marker = '''', MaxKeys = listMax\<rparr> tr of
           None \<Rightarrow> None
         | Some (Some e, tr1) \<Rightarrow> Some (Some e, tr1)
         | Some (None, tr1) \<Rightarrow>
             let (_, tr2) = issue (Client d) tr1 (ObjectDelete k)
             in Some (None, tr2))"

section \<open>The specification's formulas and example stores\<close>

subsection \<open>Formulas of the specification\<close>




text \<open>The specification's \<open>ceil(N / C)\<close>, for a positive \<open>C\<close>.\<close>

definition ceil_div :: "int \<Rightarrow> int \<Rightarrow> int" where
  "ceil_div n c = (n + c - 1) div c"

text \<open>The part numbers of a list of parts are 1, 2, 3, ... in this order.\<close>

definition ascending_from_1 :: "part list \<Rightarrow> bool" where
  "ascending_from_1 ps = (map PartNumber ps = map int [1..<Suc (length ps)])"

text \<open>The call \<^verbatim>\<open>uploadPart\<close> of \<^verbatim>\<open>cos.go\<close> makes for a writer whose buffer holds \<open>b\<close>.\<close>

definition uploadPart_call :: "writer \<Rightarrow> bytes \<Rightarrow> call" where
  "uploadPart_call w b =
     UploadPart (key w) (uploadID w) (int (length (parts w)) + 1) b (Some (int (length b)))"

text \<open>
  A caller that hands a sequence of byte slices to \<^verbatim>\<open>Write\<close> of \<^verbatim>\<open>cos.go\<close>, one after
  the other, and stops at the first error.
\<close>

fun Writes ::
  "writer \<Rightarrow> call list \<Rightarrow> bytes list \<Rightarrow> (error option \<times> writer \<times> call list) option" where
  "Writes w tr [] = Some (None, w, tr)"
| "Writes w tr (p # ps) =
     (case Write w tr p of
        None \<Rightarrow> None
      | Some (n, Some e, w1, tr1) \<Rightarrow> Some (Some e, w1, tr1)
      | Some (n, None, w1, tr1) \<Rightarrow> Writes w1 tr1 ps)"

subsection \<open>Example stores\<close>

text \<open>A reply without error, with empty headers and an empty, final listing page.\<close>

definition ok_reply :: reply where
  "ok_reply =
     \<lparr>err = None, Header = (\<lambda>_. ''''), UploadID = ''upload-1'',
      listing = \<lparr>Contents = [], CommonPrefixes = [], IsTruncated = False, NextMarker = ''''\<rparr>,
      consumed = 0\<rparr>"

text \<open>\<open>ok_reply\<close> with an error put in.\<close>

definition fail_reply :: "cos_error \<Rightarrow> reply" where
  "fail_reply e = ok_reply\<lparr>err := Some e\<rparr>"

text \<open>A store that answers every call with \<open>ok_reply\<close>.\<close>

definition store_ok :: client where
  "store_ok tr x = ok_reply"

text \<open>A store whose single-object delete fails; every other call succeeds.\<close>

definition store_delete_fails :: client where
  "store_delete_fails tr x =
     (case x of ObjectDelete k \<Rightarrow> fail_reply (OtherError ''timeout'') | _ \<Rightarrow> ok_reply)"

text \<open>A store whose server-side copy fails; every other call succeeds.\<close>

definition store_copy_fails :: client where
  "store_copy_fails tr x =
     (case x of
        ObjectCopy k u \<Rightarrow> fail_reply (ErrorResponse ''NoSuchKey'' ''no such key'')
      | _ \<Rightarrow> ok_reply)"

text \<open>A store whose part upload fails; every other call succeeds.\<close>

definition store_upload_fails :: client where
  "store_upload_fails tr x =
     (case x of
        UploadPart k u n b l \<Rightarrow> fail_reply (OtherError ''connection reset'')
      | _ \<Rightarrow> ok_reply)"

text \<open>A store whose completion of a multipart upload fails; every other call succeeds.\<close>

definition store_complete_fails :: client where
  "store_complete_fails tr x =
     (case x of
        CompleteMultipartUpload k u ps \<Rightarrow> fail_reply (OtherError ''timeout'')
      | _ \<Rightarrow> ok_reply)"

text \<open>
  Stores that differ in the answer to the head request: an object of size 0, no object
  (\<^verbatim>\<open>NoSuchKey\<close>), an object of size 7. Their listings are empty.
\<close>

definition store_zero_size_object :: client where
  "store_zero_size_object tr x =
     (case x of
        ObjectHead k \<Rightarrow> ok_reply\<lparr>Header := (\<lambda>h. if h = ''Content-Length'' then ''0'' else '''')\<rparr>
      | _ \<Rightarrow> ok_reply)"

definition store_no_object :: client where
  "store_no_object tr x =
     (case x of
        ObjectHead k \<Rightarrow> fail_reply (ErrorResponse ''NoSuchKey'' ''no such key'')
      | _ \<Rightarrow> ok_reply)"

definition store_object_of_size_7 :: client where
  "store_object_of_size_7 tr x =
     (case x of
        ObjectHead k \<Rightarrow> ok_reply\<lparr>Header := (\<lambda>h. if h = ''Content-Length'' then ''7'' else '''')\<rparr>
      | _ \<Rightarrow> ok_reply)"

text \<open>
  Stores without an object at the key asked for, whose listing under a prefix holds one
  common prefix and no object, or one object and no common prefix.
\<close>

definition store_only_common_prefix :: client where
  "store_only_common_prefix tr x =
     (case x of
        ObjectHead k \<Rightarrow> fail_reply (ErrorResponse ''NoSuchKey'' ''no such key'')
      | BucketGet opt \<Rightarrow>
          ok_reply\<lparr>listing := \<lparr>Contents = [], CommonPrefixes = [Prefix opt @ ''b/''],
                                 IsTruncated = True, NextMarker = Prefix opt @ ''b/''\<rparr>\<rparr>
      | _ \<Rightarrow> ok_reply)"

definition store_one_child :: client where
  "store_one_child tr x =
     (case x of
        ObjectHead k \<Rightarrow> fail_reply (ErrorResponse ''NoSuchKey'' ''no such key'')
      | BucketGet opt \<Rightarrow>
          ok_reply\<lparr>listing := \<lparr>Contents = [\<lparr>Key = Prefix opt @ ''c''\<rparr>], CommonPrefixes = [],
                                 IsTruncated = False, NextMarker = ''''\<rparr>\<rparr>
      | _ \<Rightarrow> ok_reply)"

subsection \<open>Example drivers and writers\<close>

text \<open>A driver on a given store, with a given root directory and chunk size.\<close>

definition example_driver :: "client \<Rightarrow> string \<Rightarrow> int \<Rightarrow> driver" where
  "example_driver c root cs =
     \<lparr>Client = c, BucketURL_Host = ''bkt.cos.ap-guangzhou.myqcloud.com'', Bucket = ''bkt'',
      RootDirectory = root, ChunkSize = cs, MaxConcurrency = 10\<rparr>"

text \<open>
  Freshly created writers of the two versions, with chunk size 5, on the store that
  always succeeds.
\<close>

definition writer_fresh :: writer where
  "writer_fresh = newWriter (example_driver store_ok '''' 5) ''k'' ''upload-1'' []"

definition writer_p1_fresh :: writer where
  "writer_p1_fresh = newWriter_p1 (example_driver store_ok '''' 5) ''k'' ''''"

text \<open>
  Writers of \<^verbatim>\<open>cos.go\<close> that hold three buffered bytes, on the store whose completion
  fails and on the store whose part upload fails.
\<close>

definition writer_3 :: writer where
  "writer_3 =
     (newWriter (example_driver store_complete_fails '''' 5) ''k'' ''upload-1'' [])
       \<lparr>buf := Some [1, 2, 3]\<rparr>"

definition writer_3_upload_fails :: writer where
  "writer_3_upload_fails =
     (newWriter (example_driver store_upload_fails '''' 5) ''k'' ''upload-1'' [])
       \<lparr>buf := Some [1, 2, 3]\<rparr>"

text \<open>
  Writers of the second version that hold six buffered bytes, with chunk size 5, on the
  store that always succeeds and on the store whose completion fails.
\<close>

definition writer_p1_6 :: writer where
  "writer_p1_6 =
     (newWriter_p1 (example_driver store_ok '''' 5) ''k'' '''')\<lparr>buf := Some [1, 2, 3, 4, 5, 6]\<rparr>"

definition writer_p1_6_failing :: writer where
  "writer_p1_6_failing =
     (newWriter_p1 (example_driver store_complete_fails '''' 5) ''k'' '''')
       \<lparr>buf := Some [1, 2, 3, 4, 5, 6]\<rparr>"





section \<open>Properties\<close>

subsection \<open>Auxiliary facts about the writers\<close>

lemma uploadPart_Some:
  assumes "buf w = Some b"
  shows "uploadPart w tr =
     (if b = [] then (None, w, tr)
      else case err (Client (driver w) tr (uploadPart_call w b)) of
             Some e \<Rightarrow> (Some (SDKError e), w\<lparr>buf := Some []\<rparr>, tr @ [uploadPart_call w b])
           | None \<Rightarrow> (None,
                      w\<lparr>buf := Some [],
                        parts := parts w @ [Part (int (length (parts w)) + 1)
                           (Header (Client (driver w) tr (uploadPart_call w b)) ''ETag'')]\<rparr>,
                      tr @ [uploadPart_call w b]))"
  using assms by (simp add: uploadPart_def uploadPart_call_def issue_def Let_def split: option.splits)

lemma Commit_closed:
  "closed w \<Longrightarrow> Commit w tr =
     (Some (Errorf (if \<not> committed w \<and> \<not> cancelled w then ''already closed''
                    else if committed w then ''already committed'' else ''already cancelled'')), w, tr)"
  by (simp add: Commit_def)

lemma Commit_ok_flags:
  "Commit v s = (None, w, t) \<Longrightarrow> committed w \<and> closed w"
  by (auto simp: Commit_def Close_def uploadPart_def issue_def Let_def
      split: if_splits option.splits prod.splits)

lemma Cancel_closed: "Cancel v s = (e, w, t) \<Longrightarrow> closed w"
  by (auto simp: Cancel_def Close_def issue_def Let_def split: if_splits)

lemma Cancel_open_flags:
  "Cancel v s = (e, w, t) \<Longrightarrow> \<not> closed v \<Longrightarrow> cancelled w \<and> committed w = committed v"
  by (auto simp: Cancel_def Close_def issue_def Let_def split: if_splits)

lemma Commit_p1_sets_committed:
  "\<not> cancelled v \<Longrightarrow> Commit_p1 v s = (e, w, t) \<Longrightarrow> committed w"
  by (auto simp: Commit_p1_def issue_def Let_def split: if_splits option.splits prod.splits)

lemma Commit_p1_closed: "Commit_p1 v s = (e, w, t) \<Longrightarrow> closed w = closed v"
  by (auto simp: Commit_p1_def issue_def Let_def split: if_splits option.splits prod.splits)

lemma Cancel_p1_flags:
  "Cancel_p1 v s = (e, w, t) \<Longrightarrow>
     closed w = closed v \<and> cancelled w \<and> committed w = committed v"
  by (auto simp: Cancel_p1_def issue_def Let_def split: if_splits option.splits prod.splits)

lemma Write_closed:
  "closed w \<Longrightarrow> Write w tr p = Some (0, Some (Errorf ''already closed''), w, tr)"
  by (simp add: Write_def)

lemma ascending_snoc:
  "ascending_from_1 ps \<Longrightarrow> ascending_from_1 (ps @ [Part (int (length ps) + 1) etag])"
  by (simp add: ascending_from_1_def)

lemma ascending_completeParts: "ascending_from_1 (completeParts ps)"
proof -
  have "map PartNumber (completeParts ps) = map (\<lambda>x. int (fst x) + 1) (enumerate 0 ps)"
    by (simp add: completeParts_def split_def comp_def)
  also have "\<dots> = map (\<lambda>i. int i + 1) (map fst (enumerate 0 ps))"
    by (simp only: map_map comp_def)
  also have "\<dots> = map (\<lambda>i. int i + 1) [0..<length ps]"
    by (simp only: map_fst_enumerate add_0)
  also have "\<dots> = map int (map Suc [0..<length ps])"
    by (simp add: comp_def)
  also have "\<dots> = map int [1..<Suc (length ps)]"
    by (simp only: map_Suc_upt One_nat_def)
  finally show ?thesis
    by (simp add: ascending_from_1_def completeParts_def)
qed

subsection \<open>Auxiliary facts about the listing loops\<close>

lemma Delete_loop_final_empty_page:
  assumes "err (Client d tr (BucketGet opt)) = None"
    and "Contents (listing (Client d tr (BucketGet opt))) = []"
    and "\<not> IsTruncated (listing (Client d tr (BucketGet opt)))"
  shows "Delete_loop d path opt tr = Some (None, tr @ [BucketGet opt])"
  using assms by (subst Delete_loop.simps) (simp add: issue_def Let_def)

lemma Delete_loop_p1_empty_page:
  assumes "err (Client d tr (BucketGet opt)) = None"
    and "Contents (listing (Client d tr (BucketGet opt))) = []"
  shows "Delete_loop_p1 d path opt tr = Some (None, tr @ [BucketGet opt])"
  using assms by (subst Delete_loop_p1.simps) (simp add: issue_def Let_def)

subsection \<open>Auxiliary facts about the loop of Write\<close>

lemma Write_loop_below:
  assumes "buf w = Some b" and "int (length b) < ChunkSize (driver w)"
  shows "Write_loop w tr = Some (None, w, tr)"
  using assms by (subst Write_loop.simps) simp

lemma Write_loop_flush:
  assumes "buf w = Some b" and "ChunkSize (driver w) \<le> int (length b)"
    and "0 < ChunkSize (driver w)"
  shows "Write_loop w tr =
     (case err (Client (driver w) tr (uploadPart_call w b)) of
        Some e \<Rightarrow> Some (Some (SDKError e), w\<lparr>buf := Some []\<rparr>, tr @ [uploadPart_call w b])
      | None \<Rightarrow>
          Some (None,
            w\<lparr>buf := Some [],
              parts := parts w @ [Part (int (length (parts w)) + 1)
                 (Header (Client (driver w) tr (uploadPart_call w b)) ''ETag'')]\<rparr>,
            tr @ [uploadPart_call w b]))"
proof -
  from assms have ne: "b \<noteq> []" by auto
  show ?thesis
  proof (cases "err (Client (driver w) tr (uploadPart_call w b))")
    case (Some e)
    with assms ne show ?thesis
      by (subst Write_loop.simps) (simp add: uploadPart_Some)
  next
    case None
    let ?w1 = "w\<lparr>buf := Some [],
              parts := parts w @ [Part (int (length (parts w)) + 1)
                 (Header (Client (driver w) tr (uploadPart_call w b)) ''ETag'')]\<rparr>"
    have "Write_loop ?w1 (tr @ [uploadPart_call w b]) = Some (None, ?w1, tr @ [uploadPart_call w b])"
      using assms(3) by (intro Write_loop_below [where b = "[]"]) simp_all
    with None assms ne show ?thesis
      by (subst Write_loop.simps) (simp add: uploadPart_Some)
  qed
qed

lemma Write_open:
  assumes "\<not> closed w" and "\<not> cancelled w" and "\<not> committed w" and "buf w = Some b"
    and "0 < ChunkSize (driver w)"
    and "w1 = w\<lparr>buf := Some (b @ p), size_w := size_w w + of_int (int (length p))\<rparr>"
  shows "Write w tr p =
     (if int (length (b @ p)) < ChunkSize (driver w)
      then Some (int (length p), None, w1, tr)
      else case err (Client (driver w) tr (uploadPart_call w (b @ p))) of
             Some e \<Rightarrow>
               Some (int (length p), Some (SDKError e), w1\<lparr>buf := Some []\<rparr>,
                 tr @ [uploadPart_call w (b @ p)])
           | None \<Rightarrow>
               Some (int (length p), None,
                 w1\<lparr>buf := Some [],
                    parts := parts w @ [Part (int (length (parts w)) + 1)
                      (Header (Client (driver w) tr (uploadPart_call w (b @ p))) ''ETag'')]\<rparr>,
                 tr @ [uploadPart_call w (b @ p)]))"
proof (cases "int (length (b @ p)) < ChunkSize (driver w)")
  case True
  then have "Write_loop w1 tr = Some (None, w1, tr)"
    using assms by (intro Write_loop_below [where b = "b @ p"]) simp_all
  with True assms show ?thesis
    by (simp add: Write_def Let_def)
next
  case False
  have c: "uploadPart_call w1 (b @ p) = uploadPart_call w (b @ p)"
    using assms by (simp add: uploadPart_call_def)
  have "Write_loop w1 tr =
     (case err (Client (driver w1) tr (uploadPart_call w1 (b @ p))) of
        Some e \<Rightarrow> Some (Some (SDKError e), w1\<lparr>buf := Some []\<rparr>, tr @ [uploadPart_call w1 (b @ p)])
      | None \<Rightarrow>
          Some (None,
            w1\<lparr>buf := Some [],
              parts := parts w1 @ [Part (int (length (parts w1)) + 1)
                 (Header (Client (driver w1) tr (uploadPart_call w1 (b @ p))) ''ETag'')]\<rparr>,
            tr @ [uploadPart_call w1 (b @ p)]))"
    using False assms by (intro Write_loop_flush) simp_all
  with False assms c show ?thesis
    by (simp add: Write_def Let_def split: option.splits)
qed

lemma Writes_potential:
  assumes ok: "\<forall>tr x. err (Client d tr x) = None" and pos: "0 < ChunkSize d"
  shows "driver w = d \<Longrightarrow> \<not> closed w \<Longrightarrow> \<not> cancelled w \<Longrightarrow> \<not> committed w \<Longrightarrow>
     buf w = Some b \<Longrightarrow> int (length b) < ChunkSize d \<Longrightarrow>
     \<exists>w' tr' b'. Writes w tr ps = Some (None, w', tr') \<and> driver w' = d \<and>
       key w' = key w \<and> uploadID w' = uploadID w \<and>
       \<not> closed w' \<and> \<not> cancelled w' \<and> \<not> committed w' \<and>
       buf w' = Some b' \<and> int (length b') < ChunkSize d \<and>
       ChunkSize d * int (length (parts w')) + int (length b') \<le>
         ChunkSize d * int (length (parts w)) + int (length b) + int (length (concat ps)) \<and>
       length (parts w) \<le> length (parts w') \<and>
       (parts w' = [] \<longrightarrow> length b' = length b + length (concat ps))"
proof (induction ps arbitrary: w tr b)
  case Nil
  then show ?case by simp
next
  case (Cons p ps)
  define w1 where "w1 = w\<lparr>buf := Some (b @ p), size_w := size_w w + of_int (int (length p))\<rparr>"
  have W: "Write w tr p =
     (if int (length (b @ p)) < ChunkSize (driver w)
      then Some (int (length p), None, w1, tr)
      else case err (Client (driver w) tr (uploadPart_call w (b @ p))) of
             Some e \<Rightarrow>
               Some (int (length p), Some (SDKError e), w1\<lparr>buf := Some []\<rparr>,
                 tr @ [uploadPart_call w (b @ p)])
           | None \<Rightarrow>
               Some (int (length p), None,
                 w1\<lparr>buf := Some [],
                    parts := parts w @ [Part (int (length (parts w)) + 1)
                      (Header (Client (driver w) tr (uploadPart_call w (b @ p))) ''ETag'')]\<rparr>,
                 tr @ [uploadPart_call w (b @ p)]))"
    using Cons.prems pos w1_def by (intro Write_open) simp_all
  show ?case
  proof (cases "int (length (b @ p)) < ChunkSize d")
    case True
    have step: "Writes w tr (p # ps) = Writes w1 tr ps"
      using W True Cons.prems by simp
    have "\<exists>w' tr' b'. Writes w1 tr ps = Some (None, w', tr') \<and> driver w' = d \<and>
       key w' = key w1 \<and> uploadID w' = uploadID w1 \<and>
       \<not> closed w' \<and> \<not> cancelled w' \<and> \<not> committed w' \<and>
       buf w' = Some b' \<and> int (length b') < ChunkSize d \<and>
       ChunkSize d * int (length (parts w')) + int (length b') \<le>
         ChunkSize d * int (length (parts w1)) + int (length (b @ p)) + int (length (concat ps)) \<and>
       length (parts w1) \<le> length (parts w') \<and>
       (parts w' = [] \<longrightarrow> length b' = length (b @ p) + length (concat ps))"
      using Cons.prems True by (intro Cons.IH) (simp_all add: w1_def)
    then show ?thesis
      unfolding step by (auto simp: w1_def)
  next
    case False
    define w2 where "w2 = w1\<lparr>buf := Some [],
                    parts := parts w @ [Part (int (length (parts w)) + 1)
                      (Header (Client (driver w) tr (uploadPart_call w (b @ p))) ''ETag'')]\<rparr>"
    have step: "Writes w tr (p # ps) = Writes w2 (tr @ [uploadPart_call w (b @ p)]) ps"
      using W False Cons.prems ok by (simp add: w2_def)
    have "\<exists>w' tr' b'. Writes w2 (tr @ [uploadPart_call w (b @ p)]) ps = Some (None, w', tr') \<and>
       driver w' = d \<and> key w' = key w2 \<and> uploadID w' = uploadID w2 \<and>
       \<not> closed w' \<and> \<not> cancelled w' \<and> \<not> committed w' \<and>
       buf w' = Some b' \<and> int (length b') < ChunkSize d \<and>
       ChunkSize d * int (length (parts w')) + int (length b') \<le>
         ChunkSize d * int (length (parts w2)) + int (length ([] :: bytes)) + int (length (concat ps)) \<and>
       length (parts w2) \<le> length (parts w') \<and>
       (parts w' = [] \<longrightarrow> length b' = length ([] :: bytes) + length (concat ps))"
      using Cons.prems pos by (intro Cons.IH) (simp_all add: w2_def w1_def)
    then obtain w' tr' b' where r:
      "Writes w2 (tr @ [uploadPart_call w (b @ p)]) ps = Some (None, w', tr')"
      "driver w' = d" "key w' = key w2" "uploadID w' = uploadID w2"
      "\<not> closed w'" "\<not> cancelled w'" "\<not> committed w'"
      "buf w' = Some b'" "int (length b') < ChunkSize d"
      "ChunkSize d * int (length (parts w')) + int (length b') \<le>
         ChunkSize d * int (length (parts w2)) + int (length (concat ps))"
      "length (parts w2) \<le> length (parts w')"
      by auto
    have len: "length (parts w2) = Suc (length (parts w))"
      by (simp add: w2_def)
    have "ChunkSize d * int (length (parts w2)) =
          ChunkSize d * int (length (parts w)) + ChunkSize d"
      by (simp add: len algebra_simps)
    with r(10) False have bound:
      "ChunkSize d * int (length (parts w')) + int (length b') \<le>
         ChunkSize d * int (length (parts w)) + int (length b) + int (length (concat (p # ps)))"
      by simp
    from r(11) len have grow: "length (parts w) \<le> length (parts w')" and nonempty: "parts w' \<noteq> []"
      by auto
    show ?thesis
      unfolding step using r bound grow nonempty by (auto simp: w2_def w1_def)
  qed
qed

lemma le_ceil_div:
  assumes "0 < c" and "c * k \<le> m + c - 1"
  shows "k \<le> ceil_div m c"
proof -
  have "k = (c * k) div c"
    using assms(1) by simp
  also have "\<dots> \<le> (m + c - 1) div c"
    using assms by (intro zdiv_mono1) simp_all
  finally show ?thesis
    by (simp add: ceil_div_def)
qed

lemma Commit_open_ok:
  assumes ok: "\<forall>tr x. err (Client (driver w) tr x) = None"
    and "\<not> closed w" and "\<not> cancelled w" and "\<not> committed w" and "buf w = Some b"
  shows "\<exists>w2 tr2. Commit w tr = (None, w2, tr2) \<and>
           last tr2 = CompleteMultipartUpload (key w) (uploadID w) (parts w2) \<and>
           length (parts w2) = (if b = [] then length (parts w) else Suc (length (parts w)))"
  using assms
  by (auto simp: Commit_def uploadPart_Some Close_def issue_def Let_def split: option.splits)

text \<open>
  With a chunk size of 0 or less the loop of \<^verbatim>\<open>Write\<close> does not end on an empty
  buffer: \<^verbatim>\<open>uploadPart\<close> returns at once and the condition stays true.
\<close>

lemma Write_loop_returns_only_above:
  assumes y: "Write_loop w tr = Some y"
  shows "\<not> (ChunkSize (driver w) \<le> 0 \<and> buf w = Some [])"
proof (rule Write_loop.raw_induct
    [where P = "\<lambda>w tr y. \<not> (ChunkSize (driver w) \<le> 0 \<and> buf w = Some [])", OF _ y], goal_cases)
  case (1 loop w tr y)
  show ?case
  proof
    assume a: "ChunkSize (driver w) \<le> 0 \<and> buf w = Some []"
    then have "uploadPart w tr = (None, w, tr)"
      by (simp add: uploadPart_def)
    with a 1(2) have "loop w tr = Some y"
      by simp
    from 1(1) [OF this] a show False by simp
  qed
qed

lemma Write_never_returns:
  assumes "ChunkSize (driver w) \<le> 0" and "\<not> closed w" and "\<not> cancelled w" and "\<not> committed w"
    and "buf w = Some []"
  shows "Write w tr [] = None"
proof (cases "Write_loop (w\<lparr>buf := Some [], size_w := size_w w + of_int (int (length ([] :: bytes)))\<rparr>) tr")
  case None
  with assms show ?thesis by (simp add: Write_def)
next
  case (Some y)
  from Write_loop_returns_only_above [OF this] assms show ?thesis by simp
qed

subsection \<open>Path mapping\<close>












subsection \<open>Move\<close>

text \<open>
  C4, the counterexample. In the second version, with a store whose copy succeeds and
  whose delete of the source fails, \<^verbatim>\<open>Move\<close> returns the delete error after two calls:
  no delete of the destination is attempted.
\<close>

theorem Move_p1_no_rollback:
  "Move_p1 (example_driver store_delete_fails '''' 5) [] ''/a'' ''/b'' =
     (Some (StorageError ''cos'' (OtherError ''timeout'')),
      [ObjectCopy ''b'' ''bkt/a'', ObjectDelete ''a''])"
  by (simp add: Move_p1_def Let_def cosPath_p1_def TrimLeft_def example_driver_def issue_def
      store_delete_fails_def fail_reply_def ok_reply_def driverName_def)

text \<open>
  C4, as amended. In both versions a failed copy ends \<^verbatim>\<open>Move\<close> with the translated
  copy error and the copy is the only call made. When the copy succeeds and the delete
  of the source fails, \<^verbatim>\<open>Move\<close> of \<^verbatim>\<open>cos.go\<close> issues one delete of the destination
  and returns the translated error of the source's delete, whatever the store answers
  to the rollback; \<^verbatim>\<open>Move\<close> of the second version returns the translated error
  without any rollback call.
\<close>

theorem Move_failure_paths:
  assumes "copy = ObjectCopy (cosPath d dst)
             (Bucket d @ ''.cos.'' @ BucketURL_Host d @ ''.myqcloud.com/'' @ cosPath d src)"
    and "copy1 = ObjectCopy (cosPath_p1 d dst) (Bucket d @ ''/'' @ cosPath_p1 d src)"
  shows
    "(err (Client d tr copy) = Some e \<longrightarrow>
        Move d tr src dst = (parseError src (Some e), tr @ [copy]) \<and>
        parseError src (Some e) \<noteq> None) \<and>
     (err (Client d tr copy) = None \<and>
      err (Client d (tr @ [copy]) (ObjectDelete (cosPath d src))) = Some e \<longrightarrow>
        Move d tr src dst =
          (parseError src (Some e),
           tr @ [copy, ObjectDelete (cosPath d src), ObjectDelete (cosPath d dst)]) \<and>
        parseError src (Some e) \<noteq> None) \<and>
     (err (Client d tr copy1) = Some e \<longrightarrow>
        Move_p1 d tr src dst = (Some (parseError_p1 src e), tr @ [copy1])) \<and>
     (err (Client d tr copy1) = None \<and>
      err (Client d (tr @ [copy1]) (ObjectDelete (cosPath_p1 d src))) = Some e \<longrightarrow>
        Move_p1 d tr src dst =
          (Some (parseError_p1 src e), tr @ [copy1, ObjectDelete (cosPath_p1 d src)]))"
proof -
  have ne: "parseError src (Some e) \<noteq> None"
    by (cases e) simp_all
  show ?thesis
    using assms ne by (simp add: Move_def Move_p1_def issue_def Let_def)
qed

theorem Move_failure_paths_witness:
  "Move (example_driver store_copy_fails '''' 5) [] ''/a'' ''/b'' =
     (Some (PathNotFoundError ''/a'' ''''),
      [ObjectCopy ''b'' ''bkt.cos.bkt.cos.ap-guangzhou.myqcloud.com.myqcloud.com/a'']) \<and>
   Move (example_driver store_delete_fails '''' 5) [] ''/a'' ''/b'' =
     (Some (SDKError (OtherError ''timeout'')),
      [ObjectCopy ''b'' ''bkt.cos.bkt.cos.ap-guangzhou.myqcloud.com.myqcloud.com/a'',
       ObjectDelete ''a'', ObjectDelete ''b'']) \<and>
   Move_p1 (example_driver store_copy_fails '''' 5) [] ''/a'' ''/b'' =
     (Some (PathNotFoundError ''/a'' ''cos''), [ObjectCopy ''b'' ''bkt/a''])"
  using
    Move_failure_paths [of _ "example_driver store_copy_fails '''' 5" "''/b''" "''/a''" _
      "[]" "ErrorResponse ''NoSuchKey'' ''no such key''", OF refl refl]
    Move_failure_paths [of _ "example_driver store_delete_fails '''' 5" "''/b''" "''/a''" _
      "[]" "OtherError ''timeout''", OF refl refl]
  by (simp add: example_driver_def store_copy_fails_def store_delete_fails_def fail_reply_def
      ok_reply_def cosPath_def cosPath_p1_def TrimPrefix_def TrimLeft_def driverName_def)

subsection \<open>Commit after the writer has ended\<close>

text \<open>
  C9, the counterexample. In the second version a \<^verbatim>\<open>Commit\<close> that has run to completion
  is followed by a \<^verbatim>\<open>Commit\<close> that returns nil: no error, no call, no change.
\<close>

theorem Commit_p1_twice_succeeds:
  "Commit_p1 writer_p1_fresh [] =
     (None, writer_p1_fresh\<lparr>committed := True\<rparr>, [ObjectPut ''k'' []]) \<and>
   Commit_p1 (writer_p1_fresh\<lparr>committed := True\<rparr>) [ObjectPut ''k'' []] =
     (None, writer_p1_fresh\<lparr>committed := True\<rparr>, [ObjectPut ''k'' []])"
  by (simp add: Commit_p1_def writer_p1_fresh_def newWriter_p1_def example_driver_def
      store_ok_def ok_reply_def issue_def Let_def)

text \<open>
  C9, as amended. In \<^verbatim>\<open>cos.go\<close>, a \<^verbatim>\<open>Commit\<close> on the writer a successful \<^verbatim>\<open>Commit\<close>
  has left fails with "already committed", and a \<^verbatim>\<open>Commit\<close> on the writer a
  \<^verbatim>\<open>Cancel\<close> has left fails too ("already cancelled" when the writer was open before
  the \<^verbatim>\<open>Cancel\<close>); neither makes a call nor changes the writer. In the second
  version, \<^verbatim>\<open>Commit\<close> after \<^verbatim>\<open>Cancel\<close> of a writer not yet committed fails with
  "writer cancelled", and \<^verbatim>\<open>Commit\<close> after any \<^verbatim>\<open>Commit\<close> of a writer not cancelled
  returns nil, without a call.
\<close>

theorem Commit_after_end:
  "(Commit v s = (None, w, t) \<longrightarrow>
      Commit w tr = (Some (Errorf ''already committed''), w, tr)) \<and>
   (Cancel v s = (e, w, t) \<longrightarrow>
      Commit w tr =
        (Some (Errorf (if \<not> committed w \<and> \<not> cancelled w then ''already closed''
                       else if committed w then ''already committed''
                       else ''already cancelled'')), w, tr)) \<and>
   (Cancel v s = (e, w, t) \<and> \<not> closed v \<and> \<not> committed v \<longrightarrow>
      Commit w tr = (Some (Errorf ''already cancelled''), w, tr)) \<and>
   (Cancel_p1 v s = (e, w, t) \<and> \<not> committed v \<longrightarrow>
      Commit_p1 w tr = (Some (Errorf ''writer cancelled''), w, tr)) \<and>
   (Commit_p1 v s = (e, w, t) \<and> \<not> cancelled v \<longrightarrow>
      Commit_p1 w tr = (None, w, tr))"
proof (intro conjI impI)
  assume "Commit v s = (None, w, t)"
  then have "committed w \<and> closed w" by (rule Commit_ok_flags)
  then show "Commit w tr = (Some (Errorf ''already committed''), w, tr)"
    by (simp add: Commit_closed)
next
  assume "Cancel v s = (e, w, t)"
  then have "closed w" by (rule Cancel_closed)
  then show "Commit w tr =
        (Some (Errorf (if \<not> committed w \<and> \<not> cancelled w then ''already closed''
                       else if committed w then ''already committed''
                       else ''already cancelled'')), w, tr)"
    by (rule Commit_closed)
next
  assume a: "Cancel v s = (e, w, t) \<and> \<not> closed v \<and> \<not> committed v"
  then have "closed w" "cancelled w \<and> committed w = committed v"
    using Cancel_closed Cancel_open_flags by blast+
  with a show "Commit w tr = (Some (Errorf ''already cancelled''), w, tr)"
    by (simp add: Commit_closed)
next
  assume a: "Cancel_p1 v s = (e, w, t) \<and> \<not> committed v"
  then have "cancelled w \<and> committed w = committed v"
    using Cancel_p1_flags by blast
  with a show "Commit_p1 w tr = (Some (Errorf ''writer cancelled''), w, tr)"
    by (simp add: Commit_p1_def)
next
  assume a: "Commit_p1 v s = (e, w, t) \<and> \<not> cancelled v"
  then have "committed w" using Commit_p1_sets_committed by blast
  then show "Commit_p1 w tr = (None, w, tr)"
    by (simp add: Commit_p1_def)
qed

theorem Commit_after_end_witness:
  "Commit writer_fresh [] =
     (None, writer_fresh\<lparr>buf := None, closed := True, committed := True\<rparr>,
      [CompleteMultipartUpload ''k'' ''upload-1'' []]) \<and>
   Commit (writer_fresh\<lparr>buf := None, closed := True, committed := True\<rparr>) [] =
     (Some (Errorf ''already committed''),
      writer_fresh\<lparr>buf := None, closed := True, committed := True\<rparr>, []) \<and>
   Cancel writer_fresh [] =
     (None, writer_fresh\<lparr>buf := None, closed := True, cancelled := True\<rparr>,
      [AbortMultipartUpload ''k'' ''upload-1'']) \<and>
   Commit (writer_fresh\<lparr>buf := None, closed := True, cancelled := True\<rparr>) [] =
     (Some (Errorf ''already cancelled''),
      writer_fresh\<lparr>buf := None, closed := True, cancelled := True\<rparr>, []) \<and>
   Cancel_p1 writer_p1_fresh [] = (None, writer_p1_fresh\<lparr>cancelled := True\<rparr>, []) \<and>
   Commit_p1 (writer_p1_fresh\<lparr>cancelled := True\<rparr>) [] =
     (Some (Errorf ''writer cancelled''), writer_p1_fresh\<lparr>cancelled := True\<rparr>, [])"
proof -
  have c: "Commit writer_fresh [] =
     (None, writer_fresh\<lparr>buf := None, closed := True, committed := True\<rparr>,
      [CompleteMultipartUpload ''k'' ''upload-1'' []])"
    by (simp add: Commit_def uploadPart_def Close_def writer_fresh_def newWriter_def
        example_driver_def store_ok_def ok_reply_def issue_def Let_def)
  have x: "Cancel writer_fresh [] =
     (None, writer_fresh\<lparr>buf := None, closed := True, cancelled := True\<rparr>,
      [AbortMultipartUpload ''k'' ''upload-1''])"
    by (simp add: Cancel_def Close_def writer_fresh_def newWriter_def
        example_driver_def store_ok_def ok_reply_def issue_def Let_def)
  have x1: "Cancel_p1 writer_p1_fresh [] = (None, writer_p1_fresh\<lparr>cancelled := True\<rparr>, [])"
    by (simp add: Cancel_p1_def writer_p1_fresh_def newWriter_p1_def Let_def)
  have f: "\<not> closed writer_fresh \<and> \<not> committed writer_fresh \<and> \<not> committed writer_p1_fresh"
    by (simp add: writer_fresh_def newWriter_def writer_p1_fresh_def newWriter_p1_def)
  show ?thesis
    using c x x1 f
      Commit_after_end [where v = writer_fresh and s = "[]" and tr = "[]"
        and w = "writer_fresh\<lparr>buf := None, closed := True, committed := True\<rparr>"
        and t = "[CompleteMultipartUpload ''k'' ''upload-1'' []]"]
      Commit_after_end [where v = writer_fresh and s = "[]" and tr = "[]" and e = None
        and w = "writer_fresh\<lparr>buf := None, closed := True, cancelled := True\<rparr>"
        and t = "[AbortMultipartUpload ''k'' ''upload-1'']"]
      Commit_after_end [where v = writer_p1_fresh and s = "[]" and tr = "[]" and e = None
        and w = "writer_p1_fresh\<lparr>cancelled := True\<rparr>" and t = "[]"]
    by simp
qed

subsection \<open>Write after the writer has ended\<close>

text \<open>
  C8, the counterexample. In the second version a writer whose \<^verbatim>\<open>Commit\<close> has
  succeeded still accepts a \<^verbatim>\<open>Write\<close>: three bytes are taken and buffered, and no
  error is returned.
\<close>

theorem Write_p1_after_Commit_accepts:
  "Commit_p1 writer_p1_fresh [] =
     (None, writer_p1_fresh\<lparr>committed := True\<rparr>, [ObjectPut ''k'' []]) \<and>
   Write_p1 (writer_p1_fresh\<lparr>committed := True\<rparr>) [1, 2, 3] =
     (3, None, writer_p1_fresh\<lparr>committed := True, buf := Some [1, 2, 3]\<rparr>)"
  by (simp add: Commit_p1_def Write_p1_def writer_p1_fresh_def newWriter_p1_def example_driver_def
      store_ok_def ok_reply_def issue_def Let_def)

text \<open>
  C8, as amended. In \<^verbatim>\<open>cos.go\<close>, on the writer a successful \<^verbatim>\<open>Commit\<close> or any
  \<^verbatim>\<open>Cancel\<close> has left, every \<^verbatim>\<open>Write\<close> returns 0 bytes and the error "already
  closed", changes nothing in the writer and makes no call; \<^verbatim>\<open>Close\<close>, \<^verbatim>\<open>Cancel\<close> and
  \<^verbatim>\<open>Commit\<close> leave that writer as it is too, so this holds for every later
  \<^verbatim>\<open>Write\<close>. In the second version
  \<^verbatim>\<open>Write\<close> is refused ("writer closed") only when the \<open>closed\<close> flag is set; on a
  writer that is not closed it takes all the bytes into the buffer, committed or
  cancelled or not, and neither \<^verbatim>\<open>Commit\<close> nor \<^verbatim>\<open>Cancel\<close> sets the flag.
\<close>

theorem Write_after_end:
  "(Commit v s = (None, w, t) \<or> Cancel v s = (e, w, t) \<longrightarrow>
      Write w tr p = Some (0, Some (Errorf ''already closed''), w, tr) \<and>
      snd (Close w) = w \<and> snd (Cancel w tr) = (w, tr) \<and> snd (Commit w tr) = (w, tr)) \<and>
   (closed w \<longrightarrow> Write_p1 w p = (0, Some (Errorf ''writer closed''), w)) \<and>
   (\<not> closed w \<and> buf w = Some b \<longrightarrow>
      Write_p1 w p = (int (length p), None, w\<lparr>buf := Some (b @ p)\<rparr>)) \<and>
   (Commit_p1 v s = (e, w, t) \<or> Cancel_p1 v s = (e, w, t) \<longrightarrow> closed w = closed v)"
proof (rule conjI [OF _ conjI [OF _ conjI]]; rule impI)
  assume "Commit v s = (None, w, t) \<or> Cancel v s = (e, w, t)"
  then have "closed w"
    using Commit_ok_flags Cancel_closed by blast
  then show "Write w tr p = Some (0, Some (Errorf ''already closed''), w, tr) \<and>
      snd (Close w) = w \<and> snd (Cancel w tr) = (w, tr) \<and> snd (Commit w tr) = (w, tr)"
    by (simp add: Write_def Close_def Cancel_def Commit_def)
next
  assume "closed w"
  then show "Write_p1 w p = (0, Some (Errorf ''writer closed''), w)"
    by (simp add: Write_p1_def)
next
  assume "\<not> closed w \<and> buf w = Some b"
  then show "Write_p1 w p = (int (length p), None, w\<lparr>buf := Some (b @ p)\<rparr>)"
    by (simp add: Write_p1_def)
next
  assume "Commit_p1 v s = (e, w, t) \<or> Cancel_p1 v s = (e, w, t)"
  then show "closed w = closed v"
    using Commit_p1_closed Cancel_p1_flags by blast
qed

theorem Write_after_end_witness:
  "Commit writer_fresh [] =
     (None, writer_fresh\<lparr>buf := None, closed := True, committed := True\<rparr>,
      [CompleteMultipartUpload ''k'' ''upload-1'' []]) \<and>
   Write (writer_fresh\<lparr>buf := None, closed := True, committed := True\<rparr>)
      [CompleteMultipartUpload ''k'' ''upload-1'' []] [1, 2, 3] =
     Some (0, Some (Errorf ''already closed''),
       writer_fresh\<lparr>buf := None, closed := True, committed := True\<rparr>,
       [CompleteMultipartUpload ''k'' ''upload-1'' []]) \<and>
   Write_p1 (writer_p1_fresh\<lparr>closed := True\<rparr>) [1, 2, 3] =
     (0, Some (Errorf ''writer closed''), writer_p1_fresh\<lparr>closed := True\<rparr>) \<and>
   Write_p1 writer_p1_fresh [1, 2, 3] = (3, None, writer_p1_fresh\<lparr>buf := Some [1, 2, 3]\<rparr>)"
proof -
  have c: "Commit writer_fresh [] =
     (None, writer_fresh\<lparr>buf := None, closed := True, committed := True\<rparr>,
      [CompleteMultipartUpload ''k'' ''upload-1'' []])"
    by (simp add: Commit_def uploadPart_def Close_def writer_fresh_def newWriter_def
        example_driver_def store_ok_def ok_reply_def issue_def Let_def)
  have f: "\<not> closed writer_p1_fresh \<and> buf writer_p1_fresh = Some []"
    by (simp add: writer_p1_fresh_def newWriter_p1_def)
  show ?thesis
    using c f
      Write_after_end [where v = writer_fresh and s = "[]"
        and w = "writer_fresh\<lparr>buf := None, closed := True, committed := True\<rparr>"
        and t = "[CompleteMultipartUpload ''k'' ''upload-1'' []]"
        and tr = "[CompleteMultipartUpload ''k'' ''upload-1'' []]" and p = "[1, 2, 3]"]
      Write_after_end [where w = "writer_p1_fresh\<lparr>closed := True\<rparr>" and p = "[1, 2, 3]"]
      Write_after_end [where w = "writer_p1_fresh" and p = "[1, 2, 3]" and b = "[]"]
    by simp
qed

subsection \<open>A failed Commit\<close>

text \<open>
  C10, the counterexample. In the second version, \<^verbatim>\<open>Commit\<close> on a writer that holds
  six buffered bytes, with chunk size 5, initiates a multipart upload and uploads the
  final part; the completion of the upload fails. \<^verbatim>\<open>Commit\<close> returns the error and
  leaves the \<open>committed\<close> flag set; the next \<^verbatim>\<open>Commit\<close> returns nil without a call.
\<close>

theorem Commit_p1_failed_completion_leaves_committed:
  "Commit_p1 writer_p1_6_failing [] =
     (Some (SDKError (OtherError ''timeout'')),
      writer_p1_6_failing\<lparr>committed := True, uploadID := ''upload-1'', parts := [Part 0 []]\<rparr>,
      [InitiateMultipartUpload ''k'',
       UploadPart ''k'' ''upload-1'' 1 [1, 2, 3, 4, 5, 6] None,
       CompleteMultipartUpload ''k'' ''upload-1'' [Part 1 []]]) \<and>
   committed (writer_p1_6_failing\<lparr>committed := True, uploadID := ''upload-1'',
     parts := [Part 0 []]\<rparr>) \<and>
   Commit_p1
     (writer_p1_6_failing\<lparr>committed := True, uploadID := ''upload-1'', parts := [Part 0 []]\<rparr>)
     [] =
     (None,
      writer_p1_6_failing\<lparr>committed := True, uploadID := ''upload-1'', parts := [Part 0 []]\<rparr>,
      [])"
  by (simp add: Commit_p1_def writer_p1_6_failing_def newWriter_p1_def example_driver_def
      store_complete_fails_def fail_reply_def ok_reply_def issue_def Let_def completeParts_def)

text \<open>
  C10, as amended. In \<^verbatim>\<open>cos.go\<close>, on an open writer: when the upload of the final
  part fails, \<^verbatim>\<open>Commit\<close> returns that error after this one call, with the buffer
  emptied and nothing else changed; when the completion fails, after the upload of the
  final part or with an empty buffer, \<^verbatim>\<open>Commit\<close> returns that error, and the writer
  holds the parts it sent. Whenever \<^verbatim>\<open>Commit\<close> returns an error, it is the error of
  the last call made, the writer is still neither committed nor closed nor cancelled,
  its buffer is empty, and a further \<^verbatim>\<open>Commit\<close> is not rejected: it issues the
  completion with the parts the writer holds. In the second version, when the upload of
  the final part or the completion of a multipart upload fails, \<^verbatim>\<open>Commit\<close> returns
  that error as well, but has set the \<open>committed\<close> flag; after any \<^verbatim>\<open>Commit\<close> on a
  writer that is not cancelled the flag is set, and the next \<^verbatim>\<open>Commit\<close> returns nil
  without a call.
\<close>

theorem Commit_failure:
  assumes "up = uploadPart_call v b"
    and "fin = CompleteMultipartUpload (key v) (uploadID v)
                 (parts v @ [Part (int (length (parts v)) + 1)
                    (Header (Client (driver v) s up) ''ETag'')])"
    and "fin0 = CompleteMultipartUpload (key v) (uploadID v) (parts v)"
    and "ini = InitiateMultipartUpload (key v)"
    and "up1 = UploadPart (key v) (UploadID (Client (driver v) s ini))
                 (int (length (parts v)) + 1) b None"
    and "fin1 = CompleteMultipartUpload (key v) (UploadID (Client (driver v) s ini))
                  (completeParts (parts v @
                     [Part 0 (Header (Client (driver v) (s @ [ini]) up1) ''ETag'')]))"
  shows
    "(\<not> closed v \<and> \<not> committed v \<and> \<not> cancelled v \<and> buf v = Some b \<and> b \<noteq> [] \<and>
      err (Client (driver v) s up) = Some x \<longrightarrow>
        Commit v s = (Some (SDKError x), v\<lparr>buf := Some []\<rparr>, s @ [up])) \<and>
     (\<not> closed v \<and> \<not> committed v \<and> \<not> cancelled v \<and> buf v = Some b \<and> b \<noteq> [] \<and>
      err (Client (driver v) s up) = None \<and> err (Client (driver v) (s @ [up]) fin) = Some x \<longrightarrow>
        Commit v s =
          (Some (SDKError x),
           v\<lparr>buf := Some [],
             parts := parts v @ [Part (int (length (parts v)) + 1)
                (Header (Client (driver v) s up) ''ETag'')]\<rparr>,
           s @ [up, fin])) \<and>
     (\<not> closed v \<and> \<not> committed v \<and> \<not> cancelled v \<and> buf v = Some [] \<and>
      err (Client (driver v) s fin0) = Some x \<longrightarrow>
        Commit v s = (Some (SDKError x), v, s @ [fin0])) \<and>
     (\<not> closed v \<and> \<not> committed v \<and> \<not> cancelled v \<and> buf v = Some b \<and>
      Commit v s = (Some e, w, t) \<longrightarrow>
        (\<exists>y. err (Client (driver v) (butlast t) (last t)) = Some y \<and> e = SDKError y) \<and>
        t \<noteq> s \<and> \<not> committed w \<and> \<not> closed w \<and> \<not> cancelled w \<and> buf w = Some [] \<and>
        snd (snd (Commit w tr)) =
          tr @ [CompleteMultipartUpload (key w) (uploadID w) (parts w)]) \<and>
     (\<not> committed v \<and> \<not> cancelled v \<and> buf v = Some b \<and> b \<noteq> [] \<and> uploadID v = '''' \<and>
      ChunkSize (driver v) < sint (size_w v + of_nat (length b)) \<and>
      err (Client (driver v) s ini) = None \<and>
      err (Client (driver v) (s @ [ini]) up1) = Some x \<longrightarrow>
        fst (Commit_p1 v s) = Some (SDKError x) \<and>
        snd (snd (Commit_p1 v s)) = s @ [ini, up1] \<and>
        committed (fst (snd (Commit_p1 v s)))) \<and>
     (\<not> committed v \<and> \<not> cancelled v \<and> buf v = Some b \<and> b \<noteq> [] \<and> uploadID v = '''' \<and>
      ChunkSize (driver v) < sint (size_w v + of_nat (length b)) \<and>
      err (Client (driver v) s ini) = None \<and>
      err (Client (driver v) (s @ [ini]) up1) = None \<and>
      err (Client (driver v) (s @ [ini, up1]) fin1) = Some x \<longrightarrow>
        fst (Commit_p1 v s) = Some (SDKError x) \<and>
        snd (snd (Commit_p1 v s)) = s @ [ini, up1, fin1] \<and>
        committed (fst (snd (Commit_p1 v s)))) \<and>
     (\<not> cancelled v \<and> Commit_p1 v s = (e', w, t) \<longrightarrow>
        committed w \<and> Commit_p1 w tr = (None, w, tr))"
proof -
  have 1: "\<not> closed v \<and> \<not> committed v \<and> \<not> cancelled v \<and> buf v = Some b \<and> b \<noteq> [] \<and>
      err (Client (driver v) s up) = Some x \<longrightarrow>
        Commit v s = (Some (SDKError x), v\<lparr>buf := Some []\<rparr>, s @ [up])"
    using assms(1) by (auto simp: Commit_def uploadPart_Some)
  have 2: "\<not> closed v \<and> \<not> committed v \<and> \<not> cancelled v \<and> buf v = Some b \<and> b \<noteq> [] \<and>
      err (Client (driver v) s up) = None \<and> err (Client (driver v) (s @ [up]) fin) = Some x \<longrightarrow>
        Commit v s =
          (Some (SDKError x),
           v\<lparr>buf := Some [],
             parts := parts v @ [Part (int (length (parts v)) + 1)
                (Header (Client (driver v) s up) ''ETag'')]\<rparr>,
           s @ [up, fin])"
    using assms(1,2) by (auto simp: Commit_def uploadPart_Some issue_def Let_def)
  have 3: "\<not> closed v \<and> \<not> committed v \<and> \<not> cancelled v \<and> buf v = Some [] \<and>
      err (Client (driver v) s fin0) = Some x \<longrightarrow>
        Commit v s = (Some (SDKError x), v, s @ [fin0])"
    using assms(3) by (auto simp: Commit_def uploadPart_def issue_def Let_def)
  have 4: "\<not> closed v \<and> \<not> committed v \<and> \<not> cancelled v \<and> buf v = Some b \<and>
      Commit v s = (Some e, w, t) \<longrightarrow>
        (\<exists>y. err (Client (driver v) (butlast t) (last t)) = Some y \<and> e = SDKError y) \<and>
        t \<noteq> s \<and> \<not> committed w \<and> \<not> closed w \<and> \<not> cancelled w \<and> buf w = Some [] \<and>
        snd (snd (Commit w tr)) =
          tr @ [CompleteMultipartUpload (key w) (uploadID w) (parts w)]"
  proof
    assume a: "\<not> closed v \<and> \<not> committed v \<and> \<not> cancelled v \<and> buf v = Some b \<and>
      Commit v s = (Some e, w, t)"
    then have b: "buf v = Some b" by simp
    have i: "(\<exists>y. err (Client (driver v) (butlast t) (last t)) = Some y \<and> e = SDKError y) \<and>
        t \<noteq> s \<and> \<not> committed w \<and> \<not> closed w \<and> \<not> cancelled w \<and> buf w = Some []"
      using a
      by (auto simp: Commit_def uploadPart_Some [OF b] Close_def issue_def Let_def butlast_append
          split: if_splits option.splits prod.splits)
    then have "buf w = Some []" "\<not> committed w" "\<not> closed w" "\<not> cancelled w" by simp_all
    then have "snd (snd (Commit w tr)) =
          tr @ [CompleteMultipartUpload (key w) (uploadID w) (parts w)]"
      by (simp add: Commit_def uploadPart_def Close_def issue_def Let_def split: option.splits)
    with i show "(\<exists>y. err (Client (driver v) (butlast t) (last t)) = Some y \<and> e = SDKError y) \<and>
        t \<noteq> s \<and> \<not> committed w \<and> \<not> closed w \<and> \<not> cancelled w \<and> buf w = Some [] \<and>
        snd (snd (Commit w tr)) =
          tr @ [CompleteMultipartUpload (key w) (uploadID w) (parts w)]"
      by simp
  qed
  have 5: "\<not> committed v \<and> \<not> cancelled v \<and> buf v = Some b \<and> b \<noteq> [] \<and> uploadID v = '''' \<and>
      ChunkSize (driver v) < sint (size_w v + of_nat (length b)) \<and>
      err (Client (driver v) s ini) = None \<and>
      err (Client (driver v) (s @ [ini]) up1) = Some x \<longrightarrow>
        fst (Commit_p1 v s) = Some (SDKError x) \<and>
        snd (snd (Commit_p1 v s)) = s @ [ini, up1] \<and>
        committed (fst (snd (Commit_p1 v s)))"
    using assms(4,5) by (simp add: Commit_p1_def issue_def Let_def)
  have 6: "\<not> committed v \<and> \<not> cancelled v \<and> buf v = Some b \<and> b \<noteq> [] \<and> uploadID v = '''' \<and>
      ChunkSize (driver v) < sint (size_w v + of_nat (length b)) \<and>
      err (Client (driver v) s ini) = None \<and>
      err (Client (driver v) (s @ [ini]) up1) = None \<and>
      err (Client (driver v) (s @ [ini, up1]) fin1) = Some x \<longrightarrow>
        fst (Commit_p1 v s) = Some (SDKError x) \<and>
        snd (snd (Commit_p1 v s)) = s @ [ini, up1, fin1] \<and>
        committed (fst (snd (Commit_p1 v s)))"
    using assms(4,5,6) by (simp add: Commit_p1_def issue_def Let_def)
  have 7: "\<not> cancelled v \<and> Commit_p1 v s = (e', w, t) \<longrightarrow>
        committed w \<and> Commit_p1 w tr = (None, w, tr)"
  proof
    assume a: "\<not> cancelled v \<and> Commit_p1 v s = (e', w, t)"
    then have "committed w" using Commit_p1_sets_committed by blast
    then show "committed w \<and> Commit_p1 w tr = (None, w, tr)"
      by (simp add: Commit_p1_def)
  qed
  from 1 2 3 4 5 6 7 show ?thesis
    by blast
qed

theorem Commit_failure_witness:
  "Commit writer_3_upload_fails [] =
     (Some (SDKError (OtherError ''connection reset'')),
      writer_3_upload_fails\<lparr>buf := Some []\<rparr>,
      [UploadPart ''k'' ''upload-1'' 1 [1, 2, 3] (Some 3)]) \<and>
   Commit writer_3 [] =
     (Some (SDKError (OtherError ''timeout'')),
      writer_3\<lparr>buf := Some [], parts := [Part 1 []]\<rparr>,
      [UploadPart ''k'' ''upload-1'' 1 [1, 2, 3] (Some 3),
       CompleteMultipartUpload ''k'' ''upload-1'' [Part 1 []]]) \<and>
   \<not> committed (writer_3\<lparr>buf := Some [], parts := [Part 1 []]\<rparr>) \<and>
   snd (snd (Commit (writer_3\<lparr>buf := Some [], parts := [Part 1 []]\<rparr>) [])) =
     [CompleteMultipartUpload ''k'' ''upload-1'' [Part 1 []]] \<and>
   fst (Commit_p1 writer_p1_6_failing []) = Some (SDKError (OtherError ''timeout'')) \<and>
   snd (snd (Commit_p1 writer_p1_6_failing [])) =
     [InitiateMultipartUpload ''k'', UploadPart ''k'' ''upload-1'' 1 [1, 2, 3, 4, 5, 6] None,
      CompleteMultipartUpload ''k'' ''upload-1'' [Part 1 []]] \<and>
   committed (fst (snd (Commit_p1 writer_p1_6_failing []))) \<and>
   Commit_p1 (fst (snd (Commit_p1 writer_p1_6_failing []))) [] =
     (None, fst (snd (Commit_p1 writer_p1_6_failing [])), [])"
proof -
  let ?u = writer_3_upload_fails
  let ?v = writer_3
  let ?w = "writer_3\<lparr>buf := Some [], parts := [Part 1 []]\<rparr>"
  let ?p = writer_p1_6_failing
  have f: "\<not> closed ?u \<and> \<not> committed ?u \<and> \<not> cancelled ?u \<and> buf ?u = Some [1, 2, 3] \<and>
           [1, 2, 3] \<noteq> ([] :: bytes)"
    by (simp add: writer_3_upload_fails_def newWriter_def)
  have fc: "uploadPart_call ?u [1, 2, 3] = UploadPart ''k'' ''upload-1'' 1 [1, 2, 3] (Some 3)"
    by (simp add: writer_3_upload_fails_def newWriter_def uploadPart_call_def)
  have fe: "err (Client (driver ?u) [] (uploadPart_call ?u [1, 2, 3])) =
              Some (OtherError ''connection reset'')"
    unfolding fc
    by (simp add: writer_3_upload_fails_def newWriter_def example_driver_def
        store_upload_fails_def fail_reply_def)
  from f fe
    Commit_failure [OF refl refl refl refl refl refl, where v = ?u and s = "[]"
      and b = "[1, 2, 3]" and x = "OtherError ''connection reset''", THEN conjunct1]
  have "Commit ?u [] =
          (Some (SDKError (OtherError ''connection reset'')), ?u\<lparr>buf := Some []\<rparr>,
           [] @ [uploadPart_call ?u [1, 2, 3]])"
    by blast
  then have 1: "Commit ?u [] =
          (Some (SDKError (OtherError ''connection reset'')), ?u\<lparr>buf := Some []\<rparr>,
           [UploadPart ''k'' ''upload-1'' 1 [1, 2, 3] (Some 3)])"
    unfolding fc by simp
  have g: "\<not> closed ?v \<and> \<not> committed ?v \<and> \<not> cancelled ?v \<and> buf ?v = Some [1, 2, 3] \<and>
           [1, 2, 3] \<noteq> ([] :: bytes)"
    by (simp add: writer_3_def newWriter_def)
  have gc: "uploadPart_call ?v [1, 2, 3] = UploadPart ''k'' ''upload-1'' 1 [1, 2, 3] (Some 3)"
    by (simp add: writer_3_def newWriter_def uploadPart_call_def)
  have gk: "key ?v = ''k''" "uploadID ?v = ''upload-1''" "parts ?v = []"
    by (simp_all add: writer_3_def newWriter_def)
  have gh: "Header (Client (driver ?v) [] (uploadPart_call ?v [1, 2, 3])) ''ETag'' = []"
    unfolding gc
    by (simp add: writer_3_def newWriter_def example_driver_def store_complete_fails_def
        ok_reply_def)
  have ge: "err (Client (driver ?v) [] (uploadPart_call ?v [1, 2, 3])) = None"
    unfolding gc
    by (simp add: writer_3_def newWriter_def example_driver_def store_complete_fails_def
        ok_reply_def)
  have ge2: "err (Client (driver ?v) ([] @ [uploadPart_call ?v [1, 2, 3]])
               (CompleteMultipartUpload (key ?v) (uploadID ?v)
                  (parts ?v @ [Part (int (length (parts ?v)) + 1)
                     (Header (Client (driver ?v) [] (uploadPart_call ?v [1, 2, 3])) ''ETag'')]))) =
             Some (OtherError ''timeout'')"
    by (simp add: writer_3_def newWriter_def example_driver_def store_complete_fails_def
        fail_reply_def)
  from g ge ge2
    Commit_failure [OF refl refl refl refl refl refl, where v = ?v and s = "[]"
      and b = "[1, 2, 3]" and x = "OtherError ''timeout''", THEN conjunct2, THEN conjunct1]
  have "Commit ?v [] =
          (Some (SDKError (OtherError ''timeout'')),
           ?v\<lparr>buf := Some [],
               parts := parts ?v @ [Part (int (length (parts ?v)) + 1)
                  (Header (Client (driver ?v) [] (uploadPart_call ?v [1, 2, 3])) ''ETag'')]\<rparr>,
           [] @ [uploadPart_call ?v [1, 2, 3],
                 CompleteMultipartUpload (key ?v) (uploadID ?v)
                   (parts ?v @ [Part (int (length (parts ?v)) + 1)
                      (Header (Client (driver ?v) [] (uploadPart_call ?v [1, 2, 3])) ''ETag'')])])"
    by blast
  then have 2: "Commit ?v [] =
          (Some (SDKError (OtherError ''timeout'')), ?w,
           [UploadPart ''k'' ''upload-1'' 1 [1, 2, 3] (Some 3),
            CompleteMultipartUpload ''k'' ''upload-1'' [Part 1 []]])"
    by (simp add: gh [unfolded gc] gc gk)
  from g 2
    Commit_failure [OF refl refl refl refl refl refl, where v = ?v and s = "[]"
      and b = "[1, 2, 3]" and e = "SDKError (OtherError ''timeout'')" and w = ?w and tr = "[]"
      and t = "[UploadPart ''k'' ''upload-1'' 1 [1, 2, 3] (Some 3),
                CompleteMultipartUpload ''k'' ''upload-1'' [Part 1 []]]",
      THEN conjunct2, THEN conjunct2, THEN conjunct2, THEN conjunct1]
  have "\<not> committed ?w \<and>
        snd (snd (Commit ?w [])) = [] @ [CompleteMultipartUpload (key ?w) (uploadID ?w) (parts ?w)]"
    by blast
  then have 3: "\<not> committed ?w \<and>
        snd (snd (Commit ?w [])) = [CompleteMultipartUpload ''k'' ''upload-1'' [Part 1 []]]"
    by (simp add: gk)
  let ?ini = "InitiateMultipartUpload (key ?p)"
  let ?up = "UploadPart (key ?p) (UploadID (Client (driver ?p) [] ?ini))
               (int (length (parts ?p)) + 1) [1, 2, 3, 4, 5, 6] None"
  let ?fin = "CompleteMultipartUpload (key ?p) (UploadID (Client (driver ?p) [] ?ini))
                (completeParts (parts ?p @
                   [Part 0 (Header (Client (driver ?p) ([] @ [?ini]) ?up) ''ETag'')]))"
  have h: "\<not> committed ?p \<and> \<not> cancelled ?p \<and> buf ?p = Some [1, 2, 3, 4, 5, 6] \<and>
           [1, 2, 3, 4, 5, 6] \<noteq> ([] :: bytes) \<and> uploadID ?p = '''' \<and>
           ChunkSize (driver ?p) < sint (size_w ?p + of_nat (length [1, 2, 3, 4, 5, 6 :: 8 word]))"
    by (simp add: writer_p1_6_failing_def newWriter_p1_def example_driver_def)
  have hi: "?ini = InitiateMultipartUpload ''k''"
    by (simp add: writer_p1_6_failing_def newWriter_p1_def)
  have hu: "?up = UploadPart ''k'' ''upload-1'' 1 [1, 2, 3, 4, 5, 6] None"
    by (simp add: writer_p1_6_failing_def newWriter_p1_def example_driver_def
        store_complete_fails_def ok_reply_def)
  have hf: "?fin = CompleteMultipartUpload ''k'' ''upload-1'' [Part 1 []]"
    by (simp add: writer_p1_6_failing_def newWriter_p1_def example_driver_def
        store_complete_fails_def ok_reply_def completeParts_def)
  have he: "err (Client (driver ?p) [] ?ini) = None \<and>
            err (Client (driver ?p) ([] @ [?ini]) ?up) = None \<and>
            err (Client (driver ?p) ([] @ [?ini, ?up]) ?fin) = Some (OtherError ''timeout'')"
    unfolding hf hu hi
    by (simp add: writer_p1_6_failing_def newWriter_p1_def example_driver_def
        store_complete_fails_def ok_reply_def fail_reply_def)
  from h he
    Commit_failure [OF refl refl refl refl refl refl, where v = ?p and s = "[]"
      and b = "[1, 2, 3, 4, 5, 6]" and x = "OtherError ''timeout''",
      THEN conjunct2, THEN conjunct2, THEN conjunct2, THEN conjunct2, THEN conjunct2,
      THEN conjunct1]
  have "fst (Commit_p1 ?p []) = Some (SDKError (OtherError ''timeout'')) \<and>
        snd (snd (Commit_p1 ?p [])) = [] @ [?ini, ?up, ?fin] \<and>
        committed (fst (snd (Commit_p1 ?p [])))"
    by blast
  then have 4: "fst (Commit_p1 ?p []) = Some (SDKError (OtherError ''timeout'')) \<and>
        snd (snd (Commit_p1 ?p [])) =
          [InitiateMultipartUpload ''k'', UploadPart ''k'' ''upload-1'' 1 [1, 2, 3, 4, 5, 6] None,
           CompleteMultipartUpload ''k'' ''upload-1'' [Part 1 []]] \<and>
        committed (fst (snd (Commit_p1 ?p [])))"
    by (simp add: writer_p1_6_failing_def newWriter_p1_def example_driver_def
        store_complete_fails_def ok_reply_def completeParts_def)
  have "Commit_p1 ?p [] =
          (fst (Commit_p1 ?p []), fst (snd (Commit_p1 ?p [])), snd (snd (Commit_p1 ?p [])))"
    by simp
  with h
    Commit_failure [OF refl refl refl refl refl refl, where v = ?p and s = "[]"
      and b = "[1, 2, 3, 4, 5, 6]" and e' = "fst (Commit_p1 ?p [])"
      and w = "fst (snd (Commit_p1 ?p []))" and t = "snd (snd (Commit_p1 ?p []))" and tr = "[]",
      THEN conjunct2, THEN conjunct2, THEN conjunct2, THEN conjunct2, THEN conjunct2,
      THEN conjunct2]
  have 5: "Commit_p1 (fst (snd (Commit_p1 ?p []))) [] = (None, fst (snd (Commit_p1 ?p [])), [])"
    by blast
  from 1 2 3 4 5 show ?thesis
    by blast
qed

subsection \<open>Writers in append mode\<close>

text \<open>
  C2, the counterexample. In \<^verbatim>\<open>cos.go\<close> the append-mode request for a path whose
  object exists with size 0 fails: the head request succeeded, and that alone decides.
\<close>

theorem Writer_append_rejects_empty_object:
  "Writer (example_driver store_zero_size_object '''' 5) [] ''/a'' True =
     (None, Some (Errorf ''append mode not supported for existing objects''), [ObjectHead ''a''])"
  by (simp add: Writer_def cosPath_def TrimPrefix_def example_driver_def issue_def Let_def
      store_zero_size_object_def ok_reply_def)

text \<open>
  C2, as amended. In \<^verbatim>\<open>cos.go\<close> the append-mode request fails whenever the head
  request succeeds, whatever size it reports, and when the head request fails it goes
  on exactly as a request for a fresh write does. In the second version it fails
  exactly when the head request succeeds and the reported \<^verbatim>\<open>Content-Length\<close> parses to
  a number above 0; otherwise it returns the writer a fresh write returns.
\<close>

theorem Writer_append:
  "(err (Client d tr (ObjectHead (cosPath d p))) = None \<longrightarrow>
      Writer d tr p True =
        (None, Some (Errorf ''append mode not supported for existing objects''),
         tr @ [ObjectHead (cosPath d p)])) \<and>
   (err (Client d tr (ObjectHead (cosPath d p))) = Some e \<longrightarrow>
      Writer d tr p True = Writer d (tr @ [ObjectHead (cosPath d p)]) p False) \<and>
   (err (Client d tr (ObjectHead (cosPath_p1 d p))) = None \<and>
    0 < ParseInt (Header (Client d tr (ObjectHead (cosPath_p1 d p))) ''Content-Length'') \<longrightarrow>
      Writer_p1 d tr p True =
        (None, Some (Errorf ''cos driver does not support appending to existing objects''),
         tr @ [ObjectHead (cosPath_p1 d p)])) \<and>
   (err (Client d tr (ObjectHead (cosPath_p1 d p))) = Some e \<or>
    ParseInt (Header (Client d tr (ObjectHead (cosPath_p1 d p))) ''Content-Length'') \<le> 0 \<longrightarrow>
      Writer_p1 d tr p True =
        (Some (newWriter_p1 d (cosPath_p1 d p) ''''), None, tr @ [ObjectHead (cosPath_p1 d p)]) \<and>
      fst (Writer_p1 d tr p True) = fst (Writer_p1 d tr p False))"
  by (auto simp: Writer_def Writer_p1_def issue_def Let_def split: option.splits)

theorem Writer_append_witness:
  "Writer (example_driver store_object_of_size_7 '''' 5) [] ''/a'' True =
     (None, Some (Errorf ''append mode not supported for existing objects''), [ObjectHead ''a'']) \<and>
   Writer (example_driver store_no_object '''' 5) [] ''/a'' True =
     (Some (newWriter (example_driver store_no_object '''' 5) ''a'' ''upload-1'' []), None,
      [ObjectHead ''a'', InitiateMultipartUpload ''a'']) \<and>
   Writer_p1 (example_driver store_object_of_size_7 '''' 5) [] ''/a'' True =
     (None, Some (Errorf ''cos driver does not support appending to existing objects''),
      [ObjectHead ''a'']) \<and>
   Writer_p1 (example_driver store_zero_size_object '''' 5) [] ''/a'' True =
     (Some (newWriter_p1 (example_driver store_zero_size_object '''' 5) ''a'' ''''), None,
      [ObjectHead ''a''])"
proof -
  have 7: "ParseInt ''7'' = 7" and 0: "ParseInt ''0'' = 0"
    by (simp_all add: ParseInt_def ParseUint_def is_digit_def Let_def)
  have f: "Writer (example_driver store_no_object '''' 5) [ObjectHead ''a''] ''/a'' False =
     (Some (newWriter (example_driver store_no_object '''' 5) ''a'' ''upload-1'' []), None,
      [ObjectHead ''a'', InitiateMultipartUpload ''a''])"
    by (simp add: Writer_def cosPath_def TrimPrefix_def example_driver_def issue_def Let_def
      store_no_object_def ok_reply_def)
  show ?thesis
    using 7 0 f
      Writer_append [where d = "example_driver store_object_of_size_7 '''' 5" and tr = "[]"
        and p = "''/a''"]
      Writer_append [where d = "example_driver store_no_object '''' 5" and tr = "[]"
        and p = "''/a''" and e = "ErrorResponse ''NoSuchKey'' ''no such key''"]
      Writer_append [where d = "example_driver store_zero_size_object '''' 5" and tr = "[]"
        and p = "''/a''"]
    by (simp add: example_driver_def store_object_of_size_7_def store_no_object_def
        store_zero_size_object_def fail_reply_def ok_reply_def cosPath_def cosPath_p1_def
        TrimPrefix_def TrimLeft_def)
qed

subsection \<open>What Commit sends\<close>

text \<open>
  C3, the counterexample. In \<^verbatim>\<open>cos.go\<close>, \<^verbatim>\<open>Commit\<close> on a fresh writer (no bytes, no
  parts) makes one call, the completion of the multipart upload with an empty part
  list: there is no whole-object put.
\<close>

theorem Commit_empty_writer_completes_upload:
  "Commit writer_fresh [] =
     (None, writer_fresh\<lparr>buf := None, closed := True, committed := True\<rparr>,
      [CompleteMultipartUpload ''k'' ''upload-1'' []])"
  by (simp add: Commit_def uploadPart_def Close_def writer_fresh_def newWriter_def
      example_driver_def store_ok_def ok_reply_def issue_def Let_def)

text \<open>
  C3, as amended. The calls of \<^verbatim>\<open>Commit\<close> on a writer that is not yet committed,
  cancelled or (in \<^verbatim>\<open>cos.go\<close>) closed. In \<^verbatim>\<open>cos.go\<close>: with an empty buffer, only the
  completion with the parts held; with a non-empty buffer, the upload of the whole
  buffer as part \<^verbatim>\<open>len(parts) + 1\<close> and then the completion with the parts held and
  the new one, numbered in ascending order when the parts held were. In the second
  version: with an empty buffer, one put of a zero-length object; with a non-empty
  buffer of at most the chunk size (and no upload id), one put of the buffer;
  with a larger buffer, the initiation of an upload, the upload of the buffer as one
  part, and the completion with the parts renumbered from 1.
\<close>

theorem Commit_calls:
  assumes "ini = InitiateMultipartUpload (key w)"
    and "up = UploadPart (key w) (UploadID (Client (driver w) tr ini))
                (int (length (parts w)) + 1) b None"
    and "etag = Header (Client (driver w) (tr @ [ini]) up) ''ETag''"
  shows
    "(\<not> closed w \<and> \<not> committed w \<and> \<not> cancelled w \<and> buf w = Some [] \<longrightarrow>
        snd (snd (Commit w tr)) =
          tr @ [CompleteMultipartUpload (key w) (uploadID w) (parts w)]) \<and>
     (\<not> closed w \<and> \<not> committed w \<and> \<not> cancelled w \<and> buf w = Some b \<and> b \<noteq> [] \<and>
      err (Client (driver w) tr (uploadPart_call w b)) = None \<longrightarrow>
        snd (snd (Commit w tr)) =
          tr @ [uploadPart_call w b,
                CompleteMultipartUpload (key w) (uploadID w)
                  (parts w @ [Part (int (length (parts w)) + 1)
                     (Header (Client (driver w) tr (uploadPart_call w b)) ''ETag'')])]) \<and>
     (ascending_from_1 (parts w) \<longrightarrow>
        ascending_from_1 (parts w @ [Part (int (length (parts w)) + 1) x])) \<and>
     (\<not> committed w \<and> \<not> cancelled w \<and> buf w = Some [] \<longrightarrow>
        snd (snd (Commit_p1 w tr)) = tr @ [ObjectPut (key w) []]) \<and>
     (\<not> committed w \<and> \<not> cancelled w \<and> buf w = Some b \<and> b \<noteq> [] \<and> uploadID w = '''' \<and>
      sint (size_w w + of_nat (length b)) \<le> ChunkSize (driver w) \<longrightarrow>
        snd (snd (Commit_p1 w tr)) = tr @ [ObjectPut (key w) b]) \<and>
     (\<not> committed w \<and> \<not> cancelled w \<and> buf w = Some b \<and> b \<noteq> [] \<and> uploadID w = '''' \<and>
      ChunkSize (driver w) < sint (size_w w + of_nat (length b)) \<and>
      err (Client (driver w) tr ini) = None \<and> err (Client (driver w) (tr @ [ini]) up) = None \<longrightarrow>
        snd (snd (Commit_p1 w tr)) =
          tr @ [ini, up,
                CompleteMultipartUpload (key w) (UploadID (Client (driver w) tr ini))
                  (completeParts (parts w @ [Part 0 etag]))]) \<and>
     ascending_from_1 (completeParts (parts w @ [Part 0 etag]))"
proof -
  have 1: "\<not> closed w \<and> \<not> committed w \<and> \<not> cancelled w \<and> buf w = Some [] \<longrightarrow>
        snd (snd (Commit w tr)) =
          tr @ [CompleteMultipartUpload (key w) (uploadID w) (parts w)]"
    by (simp add: Commit_def uploadPart_def Close_def issue_def Let_def split: option.splits)
  have 2: "\<not> closed w \<and> \<not> committed w \<and> \<not> cancelled w \<and> buf w = Some b \<and> b \<noteq> [] \<and>
      err (Client (driver w) tr (uploadPart_call w b)) = None \<longrightarrow>
        snd (snd (Commit w tr)) =
          tr @ [uploadPart_call w b,
                CompleteMultipartUpload (key w) (uploadID w)
                  (parts w @ [Part (int (length (parts w)) + 1)
                     (Header (Client (driver w) tr (uploadPart_call w b)) ''ETag'')])]"
    by (auto simp: Commit_def uploadPart_Some Close_def issue_def Let_def split: option.splits)
  have 3: "ascending_from_1 (parts w) \<longrightarrow>
        ascending_from_1 (parts w @ [Part (int (length (parts w)) + 1) x])"
    by (simp add: ascending_snoc)
  have 4: "\<not> committed w \<and> \<not> cancelled w \<and> buf w = Some [] \<longrightarrow>
        snd (snd (Commit_p1 w tr)) = tr @ [ObjectPut (key w) []]"
    by (simp add: Commit_p1_def issue_def Let_def)
  have 5: "\<not> committed w \<and> \<not> cancelled w \<and> buf w = Some b \<and> b \<noteq> [] \<and> uploadID w = '''' \<and>
      sint (size_w w + of_nat (length b)) \<le> ChunkSize (driver w) \<longrightarrow>
        snd (snd (Commit_p1 w tr)) = tr @ [ObjectPut (key w) b]"
    by (simp add: Commit_p1_def issue_def Let_def)
  have 6: "\<not> committed w \<and> \<not> cancelled w \<and> buf w = Some b \<and> b \<noteq> [] \<and> uploadID w = '''' \<and>
      ChunkSize (driver w) < sint (size_w w + of_nat (length b)) \<and>
      err (Client (driver w) tr ini) = None \<and> err (Client (driver w) (tr @ [ini]) up) = None \<longrightarrow>
        snd (snd (Commit_p1 w tr)) =
          tr @ [ini, up,
                CompleteMultipartUpload (key w) (UploadID (Client (driver w) tr ini))
                  (completeParts (parts w @ [Part 0 etag]))]"
    using assms by (simp add: Commit_p1_def issue_def Let_def)
  from 1 2 3 4 5 6 ascending_completeParts show ?thesis
    by blast
qed

theorem Commit_calls_witness:
  "snd (snd (Commit writer_fresh [])) = [CompleteMultipartUpload ''k'' ''upload-1'' []] \<and>
   snd (snd (Commit (writer_fresh\<lparr>buf := Some [1, 2, 3]\<rparr>) [])) =
     [UploadPart ''k'' ''upload-1'' 1 [1, 2, 3] (Some 3),
      CompleteMultipartUpload ''k'' ''upload-1'' [Part 1 []]] \<and>
   snd (snd (Commit_p1 writer_p1_fresh [])) = [ObjectPut ''k'' []] \<and>
   snd (snd (Commit_p1 (writer_p1_fresh\<lparr>buf := Some [1, 2, 3]\<rparr>) [])) =
     [ObjectPut ''k'' [1, 2, 3]] \<and>
   snd (snd (Commit_p1 writer_p1_6 [])) =
     [InitiateMultipartUpload ''k'', UploadPart ''k'' ''upload-1'' 1 [1, 2, 3, 4, 5, 6] None,
      CompleteMultipartUpload ''k'' ''upload-1'' [Part 1 []]] \<and>
   ascending_from_1 [Part 1 []]"
  using
    Commit_calls [OF refl refl refl, where w = writer_fresh and tr = "[]"]
    Commit_calls [OF refl refl refl, where w = "writer_fresh\<lparr>buf := Some [1, 2, 3]\<rparr>"
      and tr = "[]" and b = "[1, 2, 3]"]
    Commit_calls [OF refl refl refl, where w = writer_p1_fresh and tr = "[]"]
    Commit_calls [OF refl refl refl, where w = "writer_p1_fresh\<lparr>buf := Some [1, 2, 3]\<rparr>"
      and tr = "[]" and b = "[1, 2, 3]"]
    Commit_calls [OF refl refl refl, where w = writer_p1_6 and tr = "[]"
      and b = "[1, 2, 3, 4, 5, 6]"]
  by (simp add: writer_fresh_def writer_p1_fresh_def writer_p1_6_def newWriter_def
      newWriter_p1_def example_driver_def store_ok_def ok_reply_def uploadPart_call_def
      completeParts_def ascending_from_1_def)

subsection \<open>Stat\<close>

text \<open>
  C6, the counterexample. In the second version the listing call of \<^verbatim>\<open>Stat\<close> carries no
  delimiter, and a listing that holds a common prefix but no object ends in
  \<^verbatim>\<open>PathNotFoundError\<close>.
\<close>

theorem Stat_p1_ignores_common_prefixes:
  "Stat_p1 (example_driver store_only_common_prefix '''' 5) [] ''/a'' =
     (None, Some (PathNotFoundError ''/a'' ''cos''),
      [ObjectHead ''a'',
       BucketGet \<lparr>Prefix = ''a/'', Delimiter = '''', Marker = '''', MaxKeys = 1\<rparr>])"
  by (simp add: Stat_p1_def cosPath_p1_def TrimLeft_def example_driver_def issue_def Let_def
      store_only_common_prefix_def fail_reply_def ok_reply_def driverName_def)

text \<open>
  C6, as amended. Both versions first ask for the object at the key of the path and,
  when that succeeds, return a file (\<open>IsDir = False\<close>) with the size parsed from
  \<^verbatim>\<open>Content-Length\<close> and the time parsed from \<^verbatim>\<open>Last-Modified\<close>. When it fails, they
  make exactly one listing call with the prefix \<open>key + "/"\<close> and \<open>MaxKeys = 1\<close>.
  \<^verbatim>\<open>cos.go\<close> sends the delimiter \<open>/\<close>, returns a directory when the page holds an
  object or a common prefix, and otherwise the translated error of the head request,
  which is \<^verbatim>\<open>PathNotFoundError\<close> for \<^verbatim>\<open>NoSuchKey\<close>. The second version sends no
  delimiter, returns a directory only when the page holds an object, the translated
  listing error when the listing fails, and \<^verbatim>\<open>PathNotFoundError\<close> otherwise.
\<close>

theorem Stat_results:
  assumes "hd_call = ObjectHead (cosPath d p)"
    and "ls_call = BucketGet \<lparr>Prefix = cosPath d p @ ''/'', Delimiter = ''/'', Marker = '''',
                              MaxKeys = 1\<rparr>"
    and "h = Client d tr hd_call"
    and "l = Client d (tr @ [hd_call]) ls_call"
    and "hd_call1 = ObjectHead (cosPath_p1 d p)"
    and "ls_call1 = BucketGet \<lparr>Prefix = cosPath_p1 d p @ ''/'', Delimiter = '''', Marker = '''',
                               MaxKeys = 1\<rparr>"
    and "h1 = Client d tr hd_call1"
    and "l1 = Client d (tr @ [hd_call1]) ls_call1"
  shows
    "(err h = None \<longrightarrow>
        Stat d tr p =
          (Some \<lparr>Path = p,
                 Size = (if Header h ''Content-Length'' \<noteq> ''''
                         then ParseInt (Header h ''Content-Length'') else 0),
                 ModTime = (if Header h ''Last-Modified'' \<noteq> ''''
                            then time_Parse http_TimeFormat (Header h ''Last-Modified'')
                            else ZeroTime),
                 IsDir = False\<rparr>,
           None, tr @ [hd_call])) \<and>
     (err h = Some e \<and> err l = None \<and>
      (Contents (listing l) \<noteq> [] \<or> CommonPrefixes (listing l) \<noteq> []) \<longrightarrow>
        Stat d tr p =
          (Some \<lparr>Path = p, Size = 0, ModTime = ZeroTime, IsDir = True\<rparr>, None,
           tr @ [hd_call, ls_call])) \<and>
     (err h = Some e \<and>
      (err l = Some e' \<or> Contents (listing l) = [] \<and> CommonPrefixes (listing l) = []) \<longrightarrow>
        Stat d tr p = (None, parseError p (Some e), tr @ [hd_call, ls_call])) \<and>
     parseError p (Some (ErrorResponse ''NoSuchKey'' m)) = Some (PathNotFoundError p '''') \<and>
     (err h1 = None \<longrightarrow>
        Stat_p1 d tr p =
          (Some \<lparr>Path = p, Size = ParseInt (Header h1 ''Content-Length''),
                 ModTime = time_Parse time_RFC1123 (Header h1 ''Last-Modified''),
                 IsDir = False\<rparr>,
           None, tr @ [hd_call1])) \<and>
     (err h1 = Some e \<and> err l1 = None \<and> Contents (listing l1) \<noteq> [] \<longrightarrow>
        Stat_p1 d tr p =
          (Some \<lparr>Path = p, Size = 0, ModTime = time_Now, IsDir = True\<rparr>, None,
           tr @ [hd_call1, ls_call1])) \<and>
     (err h1 = Some e \<and> err l1 = None \<and> Contents (listing l1) = [] \<longrightarrow>
        Stat_p1 d tr p =
          (None, Some (PathNotFoundError p driverName), tr @ [hd_call1, ls_call1])) \<and>
     (err h1 = Some e \<and> err l1 = Some e' \<longrightarrow>
        Stat_p1 d tr p = (None, Some (parseError_p1 p e'), tr @ [hd_call1, ls_call1]))"
  using assms
  by (auto simp: Stat_def Stat_p1_def issue_def Let_def split: option.splits)

theorem Stat_results_witness:
  "Stat (example_driver store_object_of_size_7 '''' 5) [] ''/a'' =
     (Some \<lparr>Path = ''/a'', Size = 7, ModTime = ZeroTime, IsDir = False\<rparr>, None,
      [ObjectHead ''a'']) \<and>
   Stat (example_driver store_only_common_prefix '''' 5) [] ''/a'' =
     (Some \<lparr>Path = ''/a'', Size = 0, ModTime = ZeroTime, IsDir = True\<rparr>, None,
      [ObjectHead ''a'',
       BucketGet \<lparr>Prefix = ''a/'', Delimiter = ''/'', Marker = '''', MaxKeys = 1\<rparr>]) \<and>
   Stat (example_driver store_no_object '''' 5) [] ''/a'' =
     (None, Some (PathNotFoundError ''/a'' ''''),
      [ObjectHead ''a'',
       BucketGet \<lparr>Prefix = ''a/'', Delimiter = ''/'', Marker = '''', MaxKeys = 1\<rparr>]) \<and>
   Stat_p1 (example_driver store_one_child '''' 5) [] ''/a'' =
     (Some \<lparr>Path = ''/a'', Size = 0, ModTime = time_Now, IsDir = True\<rparr>, None,
      [ObjectHead ''a'',
       BucketGet \<lparr>Prefix = ''a/'', Delimiter = '''', Marker = '''', MaxKeys = 1\<rparr>])"
proof -
  have 7: "ParseInt ''7'' = 7"
    by (simp add: ParseInt_def ParseUint_def is_digit_def Let_def)
  show ?thesis
    using 7
      Stat_results [OF refl refl refl refl refl refl refl refl,
        where d = "example_driver store_object_of_size_7 '''' 5" and tr = "[]" and p = "''/a''"]
      Stat_results [OF refl refl refl refl refl refl refl refl,
        where d = "example_driver store_only_common_prefix '''' 5" and tr = "[]" and p = "''/a''"
        and e = "ErrorResponse ''NoSuchKey'' ''no such key''"]
      Stat_results [OF refl refl refl refl refl refl refl refl,
        where d = "example_driver store_no_object '''' 5" and tr = "[]" and p = "''/a''"
        and e = "ErrorResponse ''NoSuchKey'' ''no such key''"]
      Stat_results [OF refl refl refl refl refl refl refl refl,
        where d = "example_driver store_one_child '''' 5" and tr = "[]" and p = "''/a''"
        and e = "ErrorResponse ''NoSuchKey'' ''no such key''"]
    by (simp add: example_driver_def store_object_of_size_7_def store_no_object_def
        store_only_common_prefix_def store_one_child_def fail_reply_def ok_reply_def
        cosPath_def cosPath_p1_def TrimPrefix_def TrimLeft_def)
qed

subsection \<open>Delete of a path without objects\<close>

text \<open>
  C7. Let the store hold no object for the path: every listing under the key of the
  path (the prefix \<^verbatim>\<open>cos.go\<close> lists) and under \<open>key + "/"\<close> (the prefix the second
  version lists) answers without error with an empty page that is not truncated. Then
  \<^verbatim>\<open>Delete\<close> returns, and returns nil, in both versions, whatever the store answers
  to the single-object delete; it issues no batch delete; and a second \<^verbatim>\<open>Delete\<close>
  right after the first returns nil as well.
\<close>

theorem Delete_without_objects:
  assumes "\<forall>tr opt. Prefix opt = cosPath d p \<longrightarrow>
             err (Client d tr (BucketGet opt)) = None \<and>
             Contents (listing (Client d tr (BucketGet opt))) = [] \<and>
             \<not> IsTruncated (listing (Client d tr (BucketGet opt)))"
    and "\<forall>tr opt. Prefix opt = cosPath_p1 d p @ ''/'' \<longrightarrow>
             err (Client d tr (BucketGet opt)) = None \<and>
             Contents (listing (Client d tr (BucketGet opt))) = [] \<and>
             \<not> IsTruncated (listing (Client d tr (BucketGet opt)))"
  shows
    "Delete d tr p =
       Some (None,
         tr @ (if err (Client d tr (ObjectDelete (cosPath d p))) = None
               then [ObjectDelete (cosPath d p)]
               else [ObjectDelete (cosPath d p),
                     BucketGet \<lparr>Prefix = cosPath d p, Delimiter = '''', Marker = '''',
                                MaxKeys = 1000\<rparr>])) \<and>
     (\<exists>t t'. Delete d tr p = Some (None, t) \<and> Delete d t p = Some (None, t')) \<and>
     Delete_p1 d tr p =
       Some (None,
         tr @ [BucketGet \<lparr>Prefix = cosPath_p1 d p @ ''/'', Delimiter = '''', Marker = '''',
                          MaxKeys = 1000\<rparr>,
               ObjectDelete (cosPath_p1 d p)]) \<and>
     (\<exists>t t'. Delete_p1 d tr p = Some (None, t) \<and> Delete_p1 d t p = Some (None, t'))"
proof -
  have a: "Delete d s p =
       Some (None,
         s @ (if err (Client d s (ObjectDelete (cosPath d p))) = None
               then [ObjectDelete (cosPath d p)]
               else [ObjectDelete (cosPath d p),
                     BucketGet \<lparr>Prefix = cosPath d p, Delimiter = '''', Marker = '''',
                                MaxKeys = 1000\<rparr>]))" for s
    using assms(1)
    by (simp add: Delete_def issue_def Let_def Delete_loop_final_empty_page)
  have b: "Delete_p1 d s p =
       Some (None,
         s @ [BucketGet \<lparr>Prefix = cosPath_p1 d p @ ''/'', Delimiter = '''', Marker = '''',
                          MaxKeys = 1000\<rparr>,
               ObjectDelete (cosPath_p1 d p)])" for s
    using assms(2)
    by (simp add: Delete_p1_def issue_def Let_def listMax_def Delete_loop_p1_empty_page)
  show ?thesis
    using a b by simp
qed

theorem Delete_without_objects_witness:
  "Delete (example_driver store_ok '''' 5) [] ''/a'' = Some (None, [ObjectDelete ''a'']) \<and>
   Delete (example_driver store_ok '''' 5) [ObjectDelete ''a''] ''/a'' =
     Some (None, [ObjectDelete ''a'', ObjectDelete ''a'']) \<and>
   Delete (example_driver store_delete_fails '''' 5) [] ''/a'' =
     Some (None,
       [ObjectDelete ''a'',
        BucketGet \<lparr>Prefix = ''a'', Delimiter = '''', Marker = '''', MaxKeys = 1000\<rparr>]) \<and>
   Delete_p1 (example_driver store_ok '''' 5) [] ''/a'' =
     Some (None,
       [BucketGet \<lparr>Prefix = ''a/'', Delimiter = '''', Marker = '''', MaxKeys = 1000\<rparr>,
        ObjectDelete ''a''])"
proof -
  have ok: "\<forall>tr opt. Prefix opt = q \<longrightarrow>
             err (Client (example_driver store_ok '''' 5) tr (BucketGet opt)) = None \<and>
             Contents (listing (Client (example_driver store_ok '''' 5) tr (BucketGet opt))) = [] \<and>
             \<not> IsTruncated (listing (Client (example_driver store_ok '''' 5) tr (BucketGet opt)))"
    for q
    by (simp add: example_driver_def store_ok_def ok_reply_def)
  have df: "\<forall>tr opt. Prefix opt = q \<longrightarrow>
             err (Client (example_driver store_delete_fails '''' 5) tr (BucketGet opt)) = None \<and>
             Contents (listing (Client (example_driver store_delete_fails '''' 5) tr
               (BucketGet opt))) = [] \<and>
             \<not> IsTruncated (listing (Client (example_driver store_delete_fails '''' 5) tr
               (BucketGet opt)))"
    for q
    by (simp add: example_driver_def store_delete_fails_def ok_reply_def)
  show ?thesis
    using
      Delete_without_objects [where d = "example_driver store_ok '''' 5" and tr = "[]"
        and p = "''/a''", OF ok ok]
      Delete_without_objects [where d = "example_driver store_ok '''' 5"
        and tr = "[ObjectDelete ''a'']" and p = "''/a''", OF ok ok]
      Delete_without_objects [where d = "example_driver store_delete_fails '''' 5" and tr = "[]"
        and p = "''/a''", OF df df]
    by (simp add: example_driver_def store_ok_def store_delete_fails_def fail_reply_def
        ok_reply_def cosPath_def cosPath_p1_def TrimPrefix_def TrimLeft_def)
qed

subsection \<open>Chunking\<close>

text \<open>
  C1, the counterexample. With chunk size 5, one \<^verbatim>\<open>Write\<close> of 12 bytes to a fresh
  writer of \<^verbatim>\<open>cos.go\<close> uploads one part of 12 bytes, and \<^verbatim>\<open>Commit\<close> then finalizes
  the upload with that one part, where \<open>ceil(12 / 5) = 3\<close>.
\<close>

theorem Write_one_part_of_12_bytes:
  "Write writer_fresh [] [1, 2, 3, 4, 5, 6, 7, 8, 9, 10, 11, 12] =
     Some (12, None,
       writer_fresh\<lparr>parts := [Part 1 []], size_w := 12, buf := Some []\<rparr>,
       [UploadPart ''k'' ''upload-1'' 1 [1, 2, 3, 4, 5, 6, 7, 8, 9, 10, 11, 12] (Some 12)]) \<and>
   snd (snd (Commit (writer_fresh\<lparr>parts := [Part 1 []], size_w := 12, buf := Some []\<rparr>)
     [UploadPart ''k'' ''upload-1'' 1 [1, 2, 3, 4, 5, 6, 7, 8, 9, 10, 11, 12] (Some 12)])) =
     [UploadPart ''k'' ''upload-1'' 1 [1, 2, 3, 4, 5, 6, 7, 8, 9, 10, 11, 12] (Some 12),
      CompleteMultipartUpload ''k'' ''upload-1'' [Part 1 []]] \<and>
   ChunkSize (driver writer_fresh) = 5 \<and> ceil_div 12 5 = 3"
proof -
  have "Write_loop
          (writer_fresh\<lparr>buf := Some [1, 2, 3, 4, 5, 6, 7, 8, 9, 10, 11, 12], size_w := 12\<rparr>) [] =
        Some (None,
          writer_fresh\<lparr>parts := [Part 1 []], size_w := 12, buf := Some []\<rparr>,
          [UploadPart ''k'' ''upload-1'' 1 [1, 2, 3, 4, 5, 6, 7, 8, 9, 10, 11, 12] (Some 12)])"
    by (subst Write_loop_flush [where b = "[1, 2, 3, 4, 5, 6, 7, 8, 9, 10, 11, 12]"])
      (simp_all add: writer_fresh_def newWriter_def example_driver_def store_ok_def ok_reply_def
        uploadPart_call_def)
  then show ?thesis
    by (simp add: Write_def Commit_def uploadPart_def Close_def issue_def Let_def
        writer_fresh_def newWriter_def example_driver_def store_ok_def ok_reply_def ceil_div_def)
qed

text \<open>
  C1, as amended. Let the chunk size be positive and every call succeed. A \<^verbatim>\<open>Write\<close>
  of \<^verbatim>\<open>cos.go\<close> on an open writer whose buffer is below the chunk size returns, and
  either leaves the buffer below the chunk size without any call, or, when the buffer
  has reached the chunk size, uploads exactly one part, which holds the whole buffer,
  and empties the buffer. Writing slices of \<open>N > 0\<close> bytes in all to a new writer and
  committing finalizes the upload with at least one and at most \<open>ceil(N / C)\<close> parts.
\<close>

theorem chunking_bound:
  assumes ok: "\<forall>tr x. err (Client d tr x) = None" and pos: "0 < ChunkSize d"
  shows
    "(driver w = d \<and> \<not> closed w \<and> \<not> cancelled w \<and> \<not> committed w \<and> buf w = Some b \<and>
      int (length b) < ChunkSize d \<longrightarrow>
        Write w tr p =
          (if int (length (b @ p)) < ChunkSize d
           then Some (int (length p), None,
                  w\<lparr>buf := Some (b @ p), size_w := size_w w + of_int (int (length p))\<rparr>, tr)
           else Some (int (length p), None,
                  w\<lparr>buf := Some [], size_w := size_w w + of_int (int (length p)),
                    parts := parts w @ [Part (int (length (parts w)) + 1)
                      (Header (Client d tr (uploadPart_call w (b @ p))) ''ETag'')]\<rparr>,
                  tr @ [uploadPart_call w (b @ p)]))) \<and>
     (0 < length (concat ps) \<longrightarrow>
        (\<exists>w1 tr1 w2 tr2.
           Writes (newWriter d k uid []) tr ps = Some (None, w1, tr1) \<and>
           Commit w1 tr1 = (None, w2, tr2) \<and>
           last tr2 = CompleteMultipartUpload k uid (parts w2) \<and>
           1 \<le> length (parts w2) \<and>
           int (length (parts w2)) \<le> ceil_div (int (length (concat ps))) (ChunkSize d)))"
proof (rule conjI; rule impI)
  assume a: "driver w = d \<and> \<not> closed w \<and> \<not> cancelled w \<and> \<not> committed w \<and> buf w = Some b \<and>
      int (length b) < ChunkSize d"
  show "Write w tr p =
          (if int (length (b @ p)) < ChunkSize d
           then Some (int (length p), None,
                  w\<lparr>buf := Some (b @ p), size_w := size_w w + of_int (int (length p))\<rparr>, tr)
           else Some (int (length p), None,
                  w\<lparr>buf := Some [], size_w := size_w w + of_int (int (length p)),
                    parts := parts w @ [Part (int (length (parts w)) + 1)
                      (Header (Client d tr (uploadPart_call w (b @ p))) ''ETag'')]\<rparr>,
                  tr @ [uploadPart_call w (b @ p)]))"
    using a ok pos by (subst Write_open [where b = b, OF _ _ _ _ _ refl]) simp_all
next
  assume n: "0 < length (concat ps)"
  let ?w0 = "newWriter d k uid []"
  let ?N = "int (length (concat ps))"
  let ?C = "ChunkSize d"
  have "\<exists>w' tr' b'. Writes ?w0 tr ps = Some (None, w', tr') \<and> driver w' = d \<and>
       key w' = key ?w0 \<and> uploadID w' = uploadID ?w0 \<and>
       \<not> closed w' \<and> \<not> cancelled w' \<and> \<not> committed w' \<and>
       buf w' = Some b' \<and> int (length b') < ?C \<and>
       ?C * int (length (parts w')) + int (length b') \<le>
         ?C * int (length (parts ?w0)) + int (length ([] :: bytes)) + ?N \<and>
       length (parts ?w0) \<le> length (parts w') \<and>
       (parts w' = [] \<longrightarrow> length b' = length ([] :: bytes) + length (concat ps))"
    using pos by (intro Writes_potential [OF ok pos]) (simp_all add: newWriter_def)
  then obtain w1 tr1 b1 where r:
    "Writes ?w0 tr ps = Some (None, w1, tr1)" "driver w1 = d" "key w1 = k" "uploadID w1 = uid"
    "\<not> closed w1" "\<not> cancelled w1" "\<not> committed w1" "buf w1 = Some b1"
    "?C * int (length (parts w1)) + int (length b1) \<le> ?N"
    "parts w1 = [] \<longrightarrow> length b1 = length (concat ps)"
    by (auto simp: newWriter_def)
  from ok r(2) have ok1: "\<forall>tr x. err (Client (driver w1) tr x) = None"
    by simp
  from Commit_open_ok [OF ok1 r(5) r(6) r(7) r(8), of tr1] obtain w2 tr2 where c:
    "Commit w1 tr1 = (None, w2, tr2)"
    "last tr2 = CompleteMultipartUpload (key w1) (uploadID w1) (parts w2)"
    "length (parts w2) = (if b1 = [] then length (parts w1) else Suc (length (parts w1)))"
    by blast
  have one: "1 \<le> length (parts w2)"
  proof (cases "b1 = []")
    case True
    with r(10) n have "parts w1 \<noteq> []" by auto
    with c(3) True show ?thesis by (cases "parts w1") simp_all
  next
    case False
    with c(3) show ?thesis by simp
  qed
  have "?C * int (length (parts w2)) \<le> ?N + ?C - 1"
  proof (cases "b1 = []")
    case True
    with c(3) r(9) pos show ?thesis by simp
  next
    case False
    then have "1 \<le> int (length b1)" by (cases b1) simp_all
    moreover have "?C * int (length (parts w2)) = ?C * int (length (parts w1)) + ?C"
      using c(3) False by (simp add: algebra_simps)
    ultimately show ?thesis using r(9) by simp
  qed
  then have "int (length (parts w2)) \<le> ceil_div ?N ?C"
    using pos by (intro le_ceil_div)
  with r(1) r(3) r(4) c(1) c(2) one show "\<exists>w1 tr1 w2 tr2.
           Writes ?w0 tr ps = Some (None, w1, tr1) \<and>
           Commit w1 tr1 = (None, w2, tr2) \<and>
           last tr2 = CompleteMultipartUpload k uid (parts w2) \<and>
           1 \<le> length (parts w2) \<and>
           int (length (parts w2)) \<le> ceil_div ?N ?C"
    by auto
qed

theorem chunking_bound_witness:
  "(\<forall>tr x. err (Client (example_driver store_ok '''' 5) tr x) = None) \<and>
   0 < ChunkSize (example_driver store_ok '''' 5) \<and>
   Write writer_fresh [] [1, 2, 3] =
     Some (3, None, writer_fresh\<lparr>buf := Some [1, 2, 3], size_w := 3\<rparr>, []) \<and>
   Write (writer_fresh\<lparr>buf := Some [1, 2, 3], size_w := 3\<rparr>) [] [4, 5, 6] =
     Some (3, None,
       writer_fresh\<lparr>buf := Some [], size_w := 6, parts := [Part 1 []]\<rparr>,
       [UploadPart ''k'' ''upload-1'' 1 [1, 2, 3, 4, 5, 6] (Some 6)]) \<and>
   (\<exists>w1 tr1 w2 tr2.
      Writes writer_fresh [] [[1, 2, 3], [4, 5, 6], [7]] = Some (None, w1, tr1) \<and>
      Commit w1 tr1 = (None, w2, tr2) \<and>
      last tr2 = CompleteMultipartUpload ''k'' ''upload-1'' (parts w2) \<and>
      1 \<le> length (parts w2) \<and> int (length (parts w2)) \<le> 2)"
proof -
  have ok: "\<forall>tr x. err (Client (example_driver store_ok '''' 5) tr x) = None"
    by (simp add: example_driver_def store_ok_def ok_reply_def)
  have pos: "0 < ChunkSize (example_driver store_ok '''' 5)"
    by (simp add: example_driver_def)
  have c: "ceil_div 7 5 = 2"
    by (simp add: ceil_div_def)
  have f: "driver writer_fresh = example_driver store_ok '''' 5" "\<not> closed writer_fresh"
    "\<not> cancelled writer_fresh" "\<not> committed writer_fresh" "buf writer_fresh = Some []"
    "key writer_fresh = ''k''" "uploadID writer_fresh = ''upload-1''" "parts writer_fresh = []"
    "size_w writer_fresh = 0"
    by (simp_all add: writer_fresh_def newWriter_def)
  have 1: "Write writer_fresh [] [1, 2, 3] =
     Some (3, None, writer_fresh\<lparr>buf := Some [1, 2, 3], size_w := 3\<rparr>, [])"
    using chunking_bound [OF ok pos, where w = writer_fresh and b = "[]" and p = "[1, 2, 3]"
        and tr = "[]" and ps = "[]"] f
    by (simp add: example_driver_def)
  have 2: "Write (writer_fresh\<lparr>buf := Some [1, 2, 3], size_w := 3\<rparr>) [] [4, 5, 6] =
     Some (3, None,
       writer_fresh\<lparr>buf := Some [], size_w := 6, parts := [Part 1 []]\<rparr>,
       [UploadPart ''k'' ''upload-1'' 1 [1, 2, 3, 4, 5, 6] (Some 6)])"
    using chunking_bound [OF ok pos, where w = "writer_fresh\<lparr>buf := Some [1, 2, 3], size_w := 3\<rparr>"
        and b = "[1, 2, 3]" and p = "[4, 5, 6]" and tr = "[]" and ps = "[]"] f
    by (simp add: example_driver_def store_ok_def ok_reply_def uploadPart_call_def)
  have 3: "\<exists>w1 tr1 w2 tr2.
      Writes writer_fresh [] [[1, 2, 3], [4, 5, 6], [7]] = Some (None, w1, tr1) \<and>
      Commit w1 tr1 = (None, w2, tr2) \<and>
      last tr2 = CompleteMultipartUpload ''k'' ''upload-1'' (parts w2) \<and>
      1 \<le> length (parts w2) \<and> int (length (parts w2)) \<le> 2"
    using chunking_bound [OF ok pos, where ps = "[[1, 2, 3], [4, 5, 6], [7]]" and k = "''k''"
        and uid = "''upload-1''" and tr = "[]"] c pos
    unfolding writer_fresh_def
    by (simp del: Writes.simps add: example_driver_def)
  from ok pos 1 2 3 show ?thesis
    by blast
qed

end
